theory Spec2Isabelle
  imports Complex_Main
begin

section \<open>JavaScript values\<close>

text \<open>
  The values \<open>JSON.parse\<close> can return, together with \<open>undefined\<close>, which a property read
  of a missing key yields, and with BigInt, which a caller can hand to \<open>sendObject\<close>. A
  number is a double: a finite value (a rational here; the sign of zero is not kept), an
  infinity (\<open>JSON.parse("1e999")\<close>) or \<open>NaN\<close>. An object is the list of its own properties
  in insertion order, which is the order \<open>JSON.stringify\<close> prints them in; its keys are
  distinct, as those of a JavaScript object are.

  The texts the client only passes on are \<open>string\<close>. The topic is the one text the client
  computes with: it is the argument of \<open>btoa\<close>, which throws on a code unit above
  \<open>U+00FF\<close>. A topic is therefore the list of its UTF-16 code units.
\<close>

datatype jsnum = Finite rat | PosInfinity | NegInfinity | NaN

datatype jsval =
    JUndefined
  | JNull
  | JBool bool
  | JNum jsnum
  | JBigInt int
  | JStr string
  | JArr "jsval list"
  | JObj "(string \<times> jsval) list"

type_synonym code_units = "nat list"

text \<open>What a \<open>throw\<close> carries: the errors of the built-ins, or a value thrown by a callback.\<close>

datatype exn =
    SyntaxError string
  | TypeError string
  | InvalidCharacterError
  | InvalidAccessError
  | Thrown string

text \<open>ToBoolean: \<open>undefined\<close>, \<open>null\<close>, \<open>false\<close>, \<open>0\<close>, \<open>NaN\<close>, \<open>0n\<close> and \<open>""\<close> are falsy.\<close>

fun truthy :: "jsval \<Rightarrow> bool" where
  "truthy JUndefined = False"
| "truthy JNull = False"
| "truthy (JBool b) = b"
| "truthy (JNum n) = (n \<noteq> Finite 0 \<and> n \<noteq> NaN)"
| "truthy (JBigInt n) = (n \<noteq> 0)"
| "truthy (JStr s) = (s \<noteq> [])"
| "truthy (JArr _) = True"
| "truthy (JObj _) = True"

text \<open>
  A property read \<open>v.k\<close> for the keys the client reads (\<open>type\<close>, \<open>message\<close>, \<open>payload\<close>,
  \<open>error\<close>): an object yields its own property or \<open>undefined\<close>; a boolean, number, string
  or array has no property of these names. The client never reads a property of \<open>null\<close> or
  \<open>undefined\<close>: \<open>destructure\<close> below throws first, and \<open>payload.error\<close> is read only
  when \<open>payload\<close> is truthy.
\<close>

fun property :: "jsval \<Rightarrow> string \<Rightarrow> jsval" where
  "property (JObj fs) k = (case map_of fs k of Some v \<Rightarrow> v | None \<Rightarrow> JUndefined)"
| "property _ k = JUndefined"

text \<open>
  \<open>const { type, message, payload } = dataObj\<close>: a \<open>TypeError\<close> on \<open>null\<close> and
  \<open>undefined\<close>, three property reads on anything else.
\<close>

fun destructure :: "jsval \<Rightarrow> exn + (jsval \<times> jsval \<times> jsval)" where
  "destructure JNull = Inl (TypeError ''Cannot destructure null'')"
| "destructure JUndefined = Inl (TypeError ''Cannot destructure undefined'')"
| "destructure v = Inr (property v ''type'', property v ''message'', property v ''payload'')"

text \<open>Whether a value holds a BigInt, at any depth.\<close>

fun has_bigint :: "jsval \<Rightarrow> bool" where
  "has_bigint (JBigInt _) = True"
| "has_bigint (JArr vs) = list_ex has_bigint vs"
| "has_bigint (JObj fs) = list_ex has_bigint (map snd fs)"
| "has_bigint v = False"

section \<open>The built-ins the client calls\<close>

text \<open>
  \<open>JSON.parse\<close>, \<open>JSON.stringify\<close>, \<open>btoa\<close>, \<open>Number.prototype.toString(36)\<close> and the
  check that the socket's \<open>close\<close> makes of its arguments are not code of the client: they
  are parameters of the model.
  \<^item> \<open>JSON.parse\<close> throws on malformed text.
  \<^item> \<open>JSON.stringify\<close> throws a \<open>TypeError\<close> on a value that holds a BigInt (and on an
    object that contains itself, which a \<open>jsval\<close>, being a tree, cannot be); \<open>JSON_stringify\<close>
    is the text it returns on any other value.
  \<^item> \<open>btoa\<close> returns the base64 text or throws: the \<open>btoa\<close> of the standard throws on a
    code unit above \<open>U+00FF\<close>.
  \<^item> \<open>Number_toString36\<close> is the rendering of a number in radix 36, whose fraction digits
    ECMAScript leaves to the engine.
  \<^item> \<open>WebSocket_close_check\<close> is what the socket's \<open>close\<close> throws for a code and a reason
    it rejects, if it does; which codes are rejected depends on the implementation.
  \<^item> \<open>WebSocket_closing_before_check\<close> says whether an open socket marks itself closing
    before it checks the arguments of \<open>close\<close>, as the socket of the \<open>ws\<close> package does,
    or checks first, as the standard has it.
\<close>

record env =
  JSON_parse :: "string \<Rightarrow> exn + jsval"
  JSON_stringify :: "jsval \<Rightarrow> string"
  btoa :: "code_units \<Rightarrow> exn + string"
  Number_toString36 :: "rat \<Rightarrow> string"
  WebSocket_close_check :: "nat option \<Rightarrow> string option \<Rightarrow> exn option"
  WebSocket_closing_before_check :: bool

text \<open>\<open>JSON.stringify(v)\<close>: the exception or the text.\<close>

definition stringify :: "env \<Rightarrow> jsval \<Rightarrow> exn + string" where
  "stringify env v =
     (if has_bigint v then Inl (TypeError ''Do not know how to serialize a BigInt'')
      else Inr (JSON_stringify env v))"

text \<open>
  \<open>r + 1\<close> for a double \<open>r\<close> between 0 and 1: the sum is rounded to a double, that is to
  the nearest multiple of \<open>1 / 2 ^ 52\<close>, and to the even one of two that are equally near.
\<close>

definition round_half_even :: "rat \<Rightarrow> int" where
  "round_half_even x =
     (if x - of_int \<lfloor>x\<rfloor> < 1 / 2 then \<lfloor>x\<rfloor>
      else if 1 / 2 < x - of_int \<lfloor>x\<rfloor> then \<lfloor>x\<rfloor> + 1
      else if even \<lfloor>x\<rfloor> then \<lfloor>x\<rfloor>
      else \<lfloor>x\<rfloor> + 1)"

definition plus_one :: "rat \<Rightarrow> rat" where
  "plus_one r = of_int (round_half_even ((r + 1) * 2 ^ 52)) / 2 ^ 52"

section \<open>The client, its socket and its callbacks\<close>

text \<open>
  A handler is a callback of the caller. It is called with one argument and either returns
  or throws; every call is recorded, in order, in the field \<open>calls\<close> of the world.
\<close>

datatype handler_arg =
    Data string
  | Message jsval
  | Exception exn
  | ErrorEvent string
  | CloseEvent nat string

type_synonym handler = "handler_arg \<Rightarrow> exn option"

datatype handler_name = PubMessageHandler | ErrorHandler | CloseHandler | UnexpectedMessageHandler

text \<open>\<open>console.log\<close>, \<open>console.error\<close> and \<open>console.warn\<close>, the default handlers: they return.\<close>

definition console_log :: handler where
  "console_log = (\<lambda>_. None)"

definition console_error :: handler where
  "console_error = (\<lambda>_. None)"

definition console_warn :: handler where
  "console_warn = (\<lambda>_. None)"

text \<open>The fifth argument of the constructor: each handler may be left out.\<close>

record handlers =
  pubMessageHandler_arg :: "handler option"
  errorHandler_arg :: "handler option"
  closeHandler_arg :: "handler option"
  unexpectedMessageHandler_arg :: "handler option"

text \<open>
  The \<open>WebSocket\<close> object, as far as the client uses it: its \<open>readyState\<close>, the frames handed
  to its \<open>send\<close> and the arguments of the calls of its \<open>close\<close>.
\<close>

datatype ready_state = CONNECTING | OPEN | CLOSING | CLOSED

record websocket =
  readyState :: ready_state
  sent :: "string list"
  close_calls :: "(nat option \<times> string option) list"

text \<open>The client holds a reference to the one socket it created; the socket lives in the world.\<close>

datatype ws_ref = Socket

record NetFieldProxyWebSocketClient =
  endpoint :: string
  clientId :: string
  deviceId :: string
  topic :: code_units
  authorization :: string
  pubMessageHandler :: handler
  errorHandler :: handler
  closeHandler :: handler
  unexpectedMessageHandler :: handler
  wsClient :: "ws_ref option"

record world =
  this :: NetFieldProxyWebSocketClient
  ws :: websocket
  calls :: "(handler_name \<times> handler_arg) list"

text \<open>Calling a handler: the call is recorded, and the handler returns or throws.\<close>

definition invoke :: "handler_name \<Rightarrow> handler \<Rightarrow> handler_arg \<Rightarrow> world \<Rightarrow> exn option \<times> world" where
  "invoke n h a w = (h a, w\<lparr>calls := calls w @ [(n, a)]\<rparr>)"

text \<open>
  The socket's own \<open>send\<close> and \<open>close\<close>. Every call of \<open>close\<close> is recorded. If
  \<open>close\<close> rejects its arguments it throws, and the socket stays as it is if it checks
  first, and is closing if it marks itself closing first. If \<open>close\<close> accepts its
  arguments, a socket that is not closed yet is closing from then on.
\<close>

definition ws_send :: "string \<Rightarrow> websocket \<Rightarrow> websocket" where
  "ws_send dataString s = s\<lparr>sent := sent s @ [dataString]\<rparr>"

definition ws_close :: "env \<Rightarrow> nat option \<Rightarrow> string option \<Rightarrow> websocket \<Rightarrow> exn option \<times> websocket" where
  "ws_close env code reason s =
     (case WebSocket_close_check env code reason of
        Some e \<Rightarrow>
          (Some e,
           s\<lparr>readyState := (if WebSocket_closing_before_check env then CLOSING else readyState s),
             close_calls := close_calls s @ [(code, reason)]\<rparr>)
      | None \<Rightarrow>
          (None,
           s\<lparr>readyState := (if readyState s = CLOSED then CLOSED else CLOSING),
             close_calls := close_calls s @ [(code, reason)]\<rparr>))"

section \<open>The methods of the client\<close>

text \<open>
  A method returns the exception that leaves it, if any, and the world at that point; \<open>send\<close>
  throws nothing and returns the world.

  The constructor; \<open>random\<close> is the double that \<open>Math.random()\<close> returns.
\<close>

definition constructor ::
  "env \<Rightarrow> rat \<Rightarrow> string \<Rightarrow> string \<Rightarrow> string \<Rightarrow> code_units \<Rightarrow> handlers \<Rightarrow> world" where
  "constructor env random endpoint' authorization' deviceId' topic' hs =
     \<lparr>this =
        \<lparr>endpoint = endpoint',
         clientId = drop 7 (Number_toString36 env (plus_one random)),
         deviceId = deviceId',
         topic = topic',
         authorization = authorization',
         pubMessageHandler = (case pubMessageHandler_arg hs of None \<Rightarrow> console_log | Some h \<Rightarrow> h),
         errorHandler = (case errorHandler_arg hs of None \<Rightarrow> console_error | Some h \<Rightarrow> h),
         closeHandler = (case closeHandler_arg hs of None \<Rightarrow> console_log | Some h \<Rightarrow> h),
         unexpectedMessageHandler =
           (case unexpectedMessageHandler_arg hs of None \<Rightarrow> console_warn | Some h \<Rightarrow> h),
         wsClient = Some Socket\<rparr>,
      ws = \<lparr>readyState = CONNECTING, sent = [], close_calls = []\<rparr>,
      calls = []\<rparr>"

definition send :: "string \<Rightarrow> world \<Rightarrow> world" where
  "send dataString w =
     (case wsClient (this w) of
        None \<Rightarrow> w
      | Some _ \<Rightarrow> if readyState (ws w) = OPEN then w\<lparr>ws := ws_send dataString (ws w)\<rparr> else w)"

text \<open>\<open>sendObject\<close>: \<open>JSON.stringify\<close> runs first, and what it throws leaves the method.\<close>

definition sendObject :: "env \<Rightarrow> jsval \<Rightarrow> world \<Rightarrow> exn option \<times> world" where
  "sendObject env dataObj w =
     (case stringify env dataObj of
        Inl e \<Rightarrow> (Some e, w)
      | Inr dataString \<Rightarrow> (None, send dataString w))"

definition subscribePayload :: "string \<Rightarrow> string \<Rightarrow> string \<Rightarrow> jsval" where
  "subscribePayload cid deviceId' topicAsBase64 =
     JObj [(''id'', JStr cid),
           (''path'', JStr (''/devices/'' @ deviceId' @ ''/netfieldproxy/'' @ topicAsBase64)),
           (''type'', JStr ''sub'')]"

text \<open>\<open>subscribeToTopic\<close>: \<open>btoa\<close> runs first, and what it throws leaves the method.\<close>

definition subscribeToTopic :: "env \<Rightarrow> string \<Rightarrow> code_units \<Rightarrow> world \<Rightarrow> exn option \<times> world" where
  "subscribeToTopic env deviceId' topic' w =
     (case btoa env topic' of
        Inl e \<Rightarrow> (Some e, w)
      | Inr topicAsBase64 \<Rightarrow>
          sendObject env (subscribePayload (clientId (this w)) deviceId' topicAsBase64) w)"

text \<open>\<open>close\<close>: what the socket's \<open>close\<close> throws leaves the method.\<close>

definition close :: "env \<Rightarrow> nat option \<Rightarrow> string option \<Rightarrow> world \<Rightarrow> exn option \<times> world" where
  "close env code data w =
     (case wsClient (this w) of
        None \<Rightarrow> (None, w)
      | Some _ \<Rightarrow>
          if readyState (ws w) = OPEN
          then (case ws_close env code data (ws w) of (x, s) \<Rightarrow> (x, w\<lparr>ws := s\<rparr>))
          else (None, w))"

definition helloPayload :: "string \<Rightarrow> string \<Rightarrow> jsval" where
  "helloPayload cid authorization' =
     JObj [(''type'', JStr ''hello''),
           (''auth'', JObj [(''headers'', JObj [(''authorization'', JStr authorization')])]),
           (''id'', JStr cid),
           (''version'', JStr ''2'')]"

definition sayHello :: "env \<Rightarrow> world \<Rightarrow> exn option \<times> world" where
  "sayHello env w = sendObject env (helloPayload (clientId (this w)) (authorization (this w))) w"

definition pingResponsePayload :: "string \<Rightarrow> jsval" where
  "pingResponsePayload cid = JObj [(''id'', JStr cid), (''type'', JStr ''ping'')]"

definition respondToHeartbeatPing :: "env \<Rightarrow> world \<Rightarrow> exn option \<times> world" where
  "respondToHeartbeatPing env w = sendObject env (pingResponsePayload (clientId (this w))) w"

text \<open>
  The body of the \<open>try\<close> block of \<open>_messageHandler\<close>: the result is the exception that
  leaves the block, if any, and the world at that point.
\<close>

definition try_block :: "env \<Rightarrow> string \<Rightarrow> world \<Rightarrow> exn option \<times> world" where
  "try_block env data w =
     (case JSON_parse env data of
        Inl e \<Rightarrow> (Some e, w)
      | Inr dataObj \<Rightarrow>
          (case destructure dataObj of
             Inl e \<Rightarrow> (Some e, w)
           | Inr (type, message, payload) \<Rightarrow>
               if truthy payload \<and> truthy (property payload ''error'')
               then invoke ErrorHandler (errorHandler (this w)) (Data data) w
               else if type = JStr ''hello''
               then subscribeToTopic env (deviceId (this w)) (topic (this w)) w
               else if type = JStr ''sub''
               then (None, w)
               else if type = JStr ''ping''
               then respondToHeartbeatPing env w
               else if type = JStr ''pub''
               then invoke PubMessageHandler (pubMessageHandler (this w)) (Message message) w
               else invoke UnexpectedMessageHandler (unexpectedMessageHandler (this w)) (Data data) w))"

text \<open>
  \<open>_messageHandler\<close>: what the block throws goes to the error handler; what the error
  handler throws there leaves the method.
\<close>

definition messageHandler :: "env \<Rightarrow> string \<Rightarrow> world \<Rightarrow> exn option \<times> world" where
  "messageHandler env data w =
     (case try_block env data w of
        (None, w') \<Rightarrow> (None, w')
      | (Some error, w') \<Rightarrow> invoke ErrorHandler (errorHandler (this w')) (Exception error) w')"

section \<open>Events of the transport\<close>

text \<open>
  \<open>_initializeWebSocketClient\<close> wires the socket's four events: \<open>onopen\<close> to \<open>_sayHello\<close>,
  \<open>onmessage\<close> to \<open>_messageHandler\<close>, \<open>onerror\<close> and \<open>onclose\<close> to the caller's handlers.
  The socket is open when it reports \<open>open\<close> and closed when it reports \<open>close\<close>.
\<close>

datatype event = Open | Frame string | Failure string | Closure nat string

fun deliver :: "env \<Rightarrow> event \<Rightarrow> world \<Rightarrow> exn option \<times> world" where
  "deliver env Open w = sayHello env (w\<lparr>ws := (ws w)\<lparr>readyState := OPEN\<rparr>\<rparr>)"
| "deliver env (Frame data) w = messageHandler env data w"
| "deliver env (Failure detail) w = invoke ErrorHandler (errorHandler (this w)) (ErrorEvent detail) w"
| "deliver env (Closure code reason) w =
     invoke CloseHandler (closeHandler (this w)) (CloseEvent code reason)
       (w\<lparr>ws := (ws w)\<lparr>readyState := CLOSED\<rparr>\<rparr>)"

text \<open>Events in order; an exception that leaves a handler ends the run.\<close>

fun run :: "env \<Rightarrow> event list \<Rightarrow> world \<Rightarrow> exn option \<times> world" where
  "run env [] w = (None, w)"
| "run env (e # es) w =
     (case deliver env e w of
        (None, w') \<Rightarrow> run env es w'
      | (Some x, w') \<Rightarrow> (Some x, w'))"

section \<open>What a frame carries, and what the client adds to the world\<close>

text \<open>The test \<open>payload && payload.error\<close> of \<open>_messageHandler\<close>, on the decoded frame.\<close>

definition carries_error :: "jsval \<Rightarrow> bool" where
  "carries_error dataObj =
     (truthy (property dataObj ''payload'') \<and> truthy (property (property dataObj ''payload'') ''error''))"

definition transport_open :: "world \<Rightarrow> bool" where
  "transport_open w = (wsClient (this w) \<noteq> None \<and> readyState (ws w) = OPEN)"

text \<open>The handler calls and the frames that a step from \<open>w\<close> to \<open>w'\<close> added.\<close>

definition new_calls :: "world \<Rightarrow> world \<Rightarrow> (handler_name \<times> handler_arg) list" where
  "new_calls w w' = drop (length (calls w)) (calls w')"

definition emitted :: "world \<Rightarrow> world \<Rightarrow> string list" where
  "emitted w w' = drop (length (sent (ws w))) (sent (ws w'))"

section \<open>The phase table of the specification\<close>

text \<open>
  The source keeps no phase. The table of section 4.1 of the specification is written down
  here as it stands, to say what "the phase is unchanged" means for a frame:
  \<open>spec_phase_step\<close> is the table, and \<open>trigger_of\<close> names the row an event falls under, by
  the same tests, in the same order, as \<open>_messageHandler\<close> makes.
\<close>

datatype phase = Phase_CONNECTING | AWAITING_HELLO_ACK | SUBSCRIBING | ACTIVE | Phase_CLOSED

datatype trigger =
    Transport_open
  | Hello_ack
  | Sub_ack
  | Ping_frame
  | Pub_frame
  | Error_frame
  | Unrecognized_frame
  | Decode_failure
  | Transport_error
  | Transport_closure

fun spec_phase_step :: "phase \<Rightarrow> trigger \<Rightarrow> phase" where
  "spec_phase_step p Transport_closure = Phase_CLOSED"
| "spec_phase_step Phase_CONNECTING Transport_open = AWAITING_HELLO_ACK"
| "spec_phase_step AWAITING_HELLO_ACK Hello_ack = SUBSCRIBING"
| "spec_phase_step SUBSCRIBING Sub_ack = ACTIVE"
| "spec_phase_step p t = p"

definition trigger_of :: "env \<Rightarrow> event \<Rightarrow> trigger" where
  "trigger_of env ev =
     (case ev of
        Open \<Rightarrow> Transport_open
      | Failure _ \<Rightarrow> Transport_error
      | Closure _ _ \<Rightarrow> Transport_closure
      | Frame data \<Rightarrow>
          (case JSON_parse env data of
             Inl _ \<Rightarrow> Decode_failure
           | Inr dataObj \<Rightarrow>
               (case destructure dataObj of
                  Inl _ \<Rightarrow> Decode_failure
                | Inr (type, message, payload) \<Rightarrow>
                    if truthy payload \<and> truthy (property payload ''error'') then Error_frame
                    else if type = JStr ''hello'' then Hello_ack
                    else if type = JStr ''sub'' then Sub_ack
                    else if type = JStr ''ping'' then Ping_frame
                    else if type = JStr ''pub'' then Pub_frame
                    else Unrecognized_frame)))"

section \<open>Concrete built-ins\<close>

text \<open>
  The \<open>btoa\<close> of the standard: an \<open>InvalidCharacterError\<close> if a code unit is above
  \<open>U+00FF\<close>, and otherwise base64 (RFC 4648, with padding), where three bytes give four
  characters of the alphabet.
\<close>

definition base64_alphabet :: string where
  "base64_alphabet = ''ABCDEFGHIJKLMNOPQRSTUVWXYZabcdefghijklmnopqrstuvwxyz0123456789+/''"

fun base64_bytes :: "nat list \<Rightarrow> string" where
  "base64_bytes [] = []"
| "base64_bytes [a] =
     [base64_alphabet ! (a div 4), base64_alphabet ! ((a mod 4) * 16), CHR ''='', CHR ''='']"
| "base64_bytes [a, b] =
     [base64_alphabet ! (a div 4), base64_alphabet ! ((a mod 4) * 16 + b div 16),
      base64_alphabet ! ((b mod 16) * 4), CHR ''='']"
| "base64_bytes (a # b # c # rest) =
     [base64_alphabet ! (a div 4), base64_alphabet ! ((a mod 4) * 16 + b div 16),
      base64_alphabet ! ((b mod 16) * 4 + c div 64), base64_alphabet ! (c mod 64)]
     @ base64_bytes rest"

definition standard_btoa :: "code_units \<Rightarrow> exn + string" where
  "standard_btoa units =
     (if list_all (\<lambda>u. u < 256) units then Inr (base64_bytes units) else Inl InvalidCharacterError)"

text \<open>The code units of a text of Latin-1.\<close>

definition utf16 :: "string \<Rightarrow> code_units" where
  "utf16 s = map of_char s"

text \<open>
  The check of the standard's \<open>close\<close>: an \<open>InvalidAccessError\<close> for a code that is neither
  1000 nor between 3000 and 4999, a \<open>SyntaxError\<close> for a reason of more than 123 bytes of
  UTF-8 (a character of Latin-1 above \<open>U+007F\<close> takes two).
\<close>

definition utf8_length :: "string \<Rightarrow> nat" where
  "utf8_length s = sum_list (map (\<lambda>c. if (of_char c :: nat) < 128 then 1 else 2) s)"

definition standard_close_check :: "nat option \<Rightarrow> string option \<Rightarrow> exn option" where
  "standard_close_check code reason =
     (if (case code of None \<Rightarrow> False | Some c \<Rightarrow> c \<noteq> 1000 \<and> (c < 3000 \<or> 4999 < c))
      then Some InvalidAccessError
      else if (case reason of None \<Rightarrow> False | Some r \<Rightarrow> 123 < utf8_length r)
      then Some (SyntaxError ''The close reason is too long'')
      else None)"

text \<open>
  A rendering in radix 36 given by a table of numbers and their texts, and a JSON codec given
  by a table of frame texts and the values they stand for: \<open>parse_table\<close> decodes the texts
  of the table and rejects every other text, \<open>stringify_table\<close> encodes the values of the
  table. Nothing outside the tables is used below.
\<close>

definition toString36_table :: "(rat \<times> string) list \<Rightarrow> rat \<Rightarrow> string" where
  "toString36_table tbl x = (case map_of tbl x of Some text \<Rightarrow> text | None \<Rightarrow> [])"

definition parse_table :: "(string \<times> jsval) list \<Rightarrow> string \<Rightarrow> exn + jsval" where
  "parse_table tbl text = (case map_of tbl text of Some v \<Rightarrow> Inr v | None \<Rightarrow> Inl (SyntaxError text))"

definition stringify_table :: "(string \<times> jsval) list \<Rightarrow> jsval \<Rightarrow> string" where
  "stringify_table tbl v = (case find (\<lambda>entry. snd entry = v) tbl of Some entry \<Rightarrow> fst entry | None \<Rightarrow> [])"

section \<open>A concrete session\<close>

text \<open>
  The frames of the scenarios of the specification and the frames the client answers with,
  for the client whose \<open>Math.random()\<close> returned \<open>1/4096\<close>: \<open>(1 + 1/4096).toString(36)\<close>
  is \<open>"1.00be29"\<close>, so its \<open>clientId\<close> is \<open>"9"\<close>. The other renderings of the table are
  \<open>(1).toString(36)\<close>, which is \<open>"1"\<close>, and \<open>(1.5).toString(36)\<close>, which is \<open>"1.i"\<close>.
\<close>

definition radix36_renderings :: "(rat \<times> string) list" where
  "radix36_renderings = [(1, ''1''), (3 / 2, ''1.i''), (4097 / 4096, ''1.00be29'')]"

definition hello_ack :: string where
  \<open>hello_ack = ''{"type":"hello"}''\<close>

definition sub_ack :: string where
  \<open>sub_ack = ''{"type":"sub"}''\<close>

definition ping_frame :: string where
  \<open>ping_frame = ''{"type":"ping"}''\<close>

definition pub_frame :: string where
  \<open>pub_frame = ''{"type":"pub","message":{"createdAt":1,"topic":"/t","data":"x"}}''\<close>

definition pub_message :: jsval where
  "pub_message =
     JObj [(''createdAt'', JNum (Finite 1)), (''topic'', JStr ''/t''), (''data'', JStr ''x'')]"

definition ping_error_frame :: string where
  \<open>ping_error_frame = ''{"type":"ping","payload":{"error":"Unauthorized"}}''\<close>

definition hello_request :: string where
  \<open>hello_request =
     ''{"type":"hello","auth":{"headers":{"authorization":"token"}},"id":"9","version":"2"}''\<close>

definition sub_request :: string where
  \<open>sub_request = ''{"id":"9","path":"/devices/D1/netfieldproxy/L3Q=","type":"sub"}''\<close>

definition ping_response :: string where
  \<open>ping_response = ''{"id":"9","type":"ping"}''\<close>

definition hello_error_frame :: string where
  \<open>hello_error_frame = ''{"type":"hello","payload":{"error":"Unauthorized"}}''\<close>

definition hello_ack_value :: jsval where
  "hello_ack_value = JObj [(''type'', JStr ''hello'')]"

definition sub_ack_value :: jsval where
  "sub_ack_value = JObj [(''type'', JStr ''sub'')]"

definition ping_value :: jsval where
  "ping_value = JObj [(''type'', JStr ''ping'')]"

definition pub_value :: jsval where
  "pub_value = JObj [(''type'', JStr ''pub''), (''message'', pub_message)]"

definition ping_error_value :: jsval where
  "ping_error_value =
     JObj [(''type'', JStr ''ping''), (''payload'', JObj [(''error'', JStr ''Unauthorized'')])]"

definition hello_error_value :: jsval where
  "hello_error_value =
     JObj [(''type'', JStr ''hello''), (''payload'', JObj [(''error'', JStr ''Unauthorized'')])]"

definition example_frames :: "(string \<times> jsval) list" where
  "example_frames =
     [(hello_ack, hello_ack_value),
      (sub_ack, sub_ack_value),
      (ping_frame, ping_value),
      (pub_frame, pub_value),
      (ping_error_frame, ping_error_value),
      (hello_error_frame, hello_error_value),
      (hello_request, helloPayload ''9'' ''token''),
      (sub_request, subscribePayload ''9'' ''D1'' ''L3Q=''),
      (ping_response, pingResponsePayload ''9'')]"

definition example_env :: env where
  "example_env =
     \<lparr>JSON_parse = parse_table example_frames, JSON_stringify = stringify_table example_frames,
      btoa = standard_btoa, Number_toString36 = toString36_table radix36_renderings,
      WebSocket_close_check = standard_close_check, WebSocket_closing_before_check = False\<rparr>"

text \<open>The same built-ins with a socket that marks itself closing before it checks.\<close>

definition eager_env :: env where
  "eager_env = example_env\<lparr>WebSocket_closing_before_check := True\<rparr>"

definition default_handlers :: handlers where
  "default_handlers =
     \<lparr>pubMessageHandler_arg = None, errorHandler_arg = None, closeHandler_arg = None,
      unexpectedMessageHandler_arg = None\<rparr>"

definition example_client :: world where
  "example_client =
     constructor example_env (1 / 4096) ''wss://x'' ''token'' ''D1'' (utf16 ''/t'') default_handlers"

text \<open>The same client once its socket has reported \<open>open\<close>.\<close>

definition example_open :: world where
  "example_open = snd (deliver example_env Open example_client)"

text \<open>
  A client whose topic is \<open>"/"\<close> followed by the euro sign, \<open>U+20AC\<close>, before and after its
  socket has reported \<open>open\<close>.
\<close>

definition euro_topic :: code_units where
  "euro_topic = [47, 8364]"

definition euro_client :: world where
  "euro_client =
     constructor example_env (1 / 4096) ''wss://x'' ''token'' ''D1'' euro_topic default_handlers"

definition euro_open :: world where
  "euro_open = snd (deliver example_env Open euro_client)"

section \<open>Facts about the concrete session\<close>

lemma plus_one_examples:
  "plus_one 0 = 1" "plus_one (1 / 2) = 3 / 2" "plus_one (1 / 4096) = 4097 / 4096"
  by code_simp+

lemma example_btoa:
  "btoa example_env (utf16 ''/t'') = Inr ''L3Q=''"
  "btoa example_env euro_topic = Inl InvalidCharacterError"
  by (simp_all add: example_env_def) code_simp+

lemma example_close_check:
  "WebSocket_close_check example_env None None = None"
  "WebSocket_close_check example_env (Some 1000) None = None"
  "WebSocket_close_check example_env (Some 1000) (Some ''bye'') = None"
  "WebSocket_close_check example_env (Some 1) None = Some InvalidAccessError"
  "WebSocket_close_check example_env (Some (Suc 0)) None = Some InvalidAccessError"
  "WebSocket_close_check eager_env (Some 1) None = Some InvalidAccessError"
  "WebSocket_close_check eager_env (Some (Suc 0)) None = Some InvalidAccessError"
  "WebSocket_close_check eager_env None None = None"
  by (simp_all add: eager_env_def example_env_def) code_simp+

lemma example_closing_before_check:
  "\<not> WebSocket_closing_before_check example_env" "WebSocket_closing_before_check eager_env"
  by (simp_all add: eager_env_def example_env_def)

lemmas frame_texts = hello_ack_def sub_ack_def ping_frame_def pub_frame_def ping_error_frame_def
  hello_error_frame_def hello_request_def sub_request_def ping_response_def

lemmas frame_values = hello_ack_value_def sub_ack_value_def ping_value_def pub_value_def
  ping_error_value_def hello_error_value_def pub_message_def helloPayload_def
  pingResponsePayload_def subscribePayload_def

lemma example_parse:
  "JSON_parse example_env hello_ack = Inr hello_ack_value"
  "JSON_parse example_env sub_ack = Inr sub_ack_value"
  "JSON_parse example_env ping_frame = Inr ping_value"
  "JSON_parse example_env pub_frame = Inr pub_value"
  "JSON_parse example_env ping_error_frame = Inr ping_error_value"
  "JSON_parse example_env hello_error_frame = Inr hello_error_value"
  by (simp_all add: example_env_def parse_table_def example_frames_def frame_texts)

lemma example_stringify:
  "JSON_stringify example_env (helloPayload ''9'' ''token'') = hello_request"
  "JSON_stringify example_env (subscribePayload ''9'' ''D1'' ''L3Q='') = sub_request"
  "JSON_stringify example_env (pingResponsePayload ''9'') = ping_response"
  by (simp_all add: example_env_def stringify_table_def example_frames_def frame_values)

lemma example_types:
  "property hello_ack_value ''type'' = JStr ''hello''"
  "property sub_ack_value ''type'' = JStr ''sub''"
  "property ping_value ''type'' = JStr ''ping''"
  "property pub_value ''type'' = JStr ''pub''"
  "property ping_error_value ''type'' = JStr ''ping''"
  "property hello_error_value ''type'' = JStr ''hello''"
  "property pub_value ''message'' = pub_message"
  by (simp_all add: frame_values)

lemma example_errors:
  "\<not> carries_error hello_ack_value"
  "\<not> carries_error sub_ack_value"
  "\<not> carries_error ping_value"
  "\<not> carries_error pub_value"
  "carries_error ping_error_value"
  "carries_error hello_error_value"
  by (simp_all add: carries_error_def frame_values)

lemma example_client_eq:
  "example_client =
     \<lparr>this = \<lparr>endpoint = ''wss://x'', clientId = ''9'', deviceId = ''D1'', topic = utf16 ''/t'',
         authorization = ''token'', pubMessageHandler = (\<lambda>_. None), errorHandler = (\<lambda>_. None),
         closeHandler = (\<lambda>_. None), unexpectedMessageHandler = (\<lambda>_. None), wsClient = Some Socket\<rparr>,
      ws = \<lparr>readyState = CONNECTING, sent = [], close_calls = []\<rparr>, calls = []\<rparr>"
  by (simp add: example_client_def constructor_def example_env_def default_handlers_def
      plus_one_examples toString36_table_def radix36_renderings_def
      console_log_def console_error_def console_warn_def)

lemma euro_client_eq:
  "euro_client = example_client\<lparr>this := (this example_client)\<lparr>topic := euro_topic\<rparr>\<rparr>"
  by (simp add: euro_client_def example_client_def constructor_def)

section \<open>Facts about the methods\<close>

lemma destructure_value:
  "v \<noteq> JNull \<Longrightarrow> v \<noteq> JUndefined \<Longrightarrow>
   destructure v = Inr (property v ''type'', property v ''message'', property v ''payload'')"
  by (cases v) simp_all

lemma carries_error_value: "carries_error v \<Longrightarrow> v \<noteq> JNull \<and> v \<noteq> JUndefined"
  by (auto simp: carries_error_def)

lemma typed_value: "property v ''type'' = JStr t \<Longrightarrow> v \<noteq> JNull \<and> v \<noteq> JUndefined"
  by auto

lemma send_cases:
  "send dataString w =
     (if transport_open w then w\<lparr>ws := (ws w)\<lparr>sent := sent (ws w) @ [dataString]\<rparr>\<rparr> else w)"
  by (simp add: send_def transport_open_def ws_send_def split: option.splits)

lemma send_fields:
  "this (send dataString w) = this w"
  "calls (send dataString w) = calls w"
  "readyState (ws (send dataString w)) = readyState (ws w)"
  "close_calls (ws (send dataString w)) = close_calls (ws w)"
  "sent (ws (send dataString w)) = sent (ws w) @ (if transport_open w then [dataString] else [])"
  by (simp_all add: send_cases)

lemma sendObject_cases:
  "sendObject env dataObj w =
     (if has_bigint dataObj then (Some (TypeError ''Do not know how to serialize a BigInt''), w)
      else (None, send (JSON_stringify env dataObj) w))"
  by (simp add: sendObject_def stringify_def)

lemma payloads_hold_no_bigint:
  "\<not> has_bigint (helloPayload cid authorization')"
  "\<not> has_bigint (subscribePayload cid deviceId' topicAsBase64)"
  "\<not> has_bigint (pingResponsePayload cid)"
  by (simp_all add: helloPayload_def subscribePayload_def pingResponsePayload_def)

lemma sayHello_eq:
  "sayHello env w =
     (None, send (JSON_stringify env (helloPayload (clientId (this w)) (authorization (this w)))) w)"
  by (simp add: sayHello_def sendObject_cases payloads_hold_no_bigint)

lemma respondToHeartbeatPing_eq:
  "respondToHeartbeatPing env w =
     (None, send (JSON_stringify env (pingResponsePayload (clientId (this w)))) w)"
  by (simp add: respondToHeartbeatPing_def sendObject_cases payloads_hold_no_bigint)

lemma subscribeToTopic_eq:
  "subscribeToTopic env deviceId' topic' w =
     (case btoa env topic' of
        Inl e \<Rightarrow> (Some e, w)
      | Inr topicAsBase64 \<Rightarrow>
          (None, send (JSON_stringify env (subscribePayload (clientId (this w)) deviceId' topicAsBase64)) w))"
  by (simp add: subscribeToTopic_def sendObject_cases payloads_hold_no_bigint split: sum.splits)

lemma close_cases:
  "close env code data w =
     (if transport_open w
      then (case WebSocket_close_check env code data of
              Some e \<Rightarrow>
                (Some e,
                 w\<lparr>ws := (ws w)\<lparr>readyState := (if WebSocket_closing_before_check env then CLOSING else OPEN),
                                 close_calls := close_calls (ws w) @ [(code, data)]\<rparr>\<rparr>)
            | None \<Rightarrow>
                (None,
                 w\<lparr>ws := (ws w)\<lparr>readyState := CLOSING,
                                 close_calls := close_calls (ws w) @ [(code, data)]\<rparr>\<rparr>))
      else (None, w))"
  by (simp add: close_def transport_open_def ws_close_def split: option.splits)

lemma close_fields:
  "this (snd (close env code data w)) = this w"
  "calls (snd (close env code data w)) = calls w"
  "sent (ws (snd (close env code data w))) = sent (ws w)"
  by (simp_all add: close_cases split: option.splits)

lemma invoke_fields:
  "fst (invoke n h a w) = h a"
  "this (snd (invoke n h a w)) = this w"
  "ws (snd (invoke n h a w)) = ws w"
  "calls (snd (invoke n h a w)) = calls w @ [(n, a)]"
  by (simp_all add: invoke_def)

lemma example_open_eq:
  "example_open = example_client\<lparr>ws := \<lparr>readyState = OPEN, sent = [hello_request], close_calls = []\<rparr>\<rparr>"
  using example_stringify(1)
  by (simp add: example_open_def example_client_eq sayHello_eq send_def ws_send_def)

lemma euro_open_eq:
  "euro_open = euro_client\<lparr>ws := \<lparr>readyState = OPEN, sent = [hello_request], close_calls = []\<rparr>\<rparr>"
  using example_stringify(1)
  by (simp add: euro_open_def euro_client_eq example_client_eq sayHello_eq send_def ws_send_def)

lemma try_block_error:
  assumes "JSON_parse env data = Inr dataObj" and "carries_error dataObj"
  shows "try_block env data w = invoke ErrorHandler (errorHandler (this w)) (Data data) w"
  using assms carries_error_value [OF assms(2)]
  by (simp add: try_block_def destructure_value carries_error_def)

lemma try_block_dispatch:
  assumes "JSON_parse env data = Inr dataObj" and "\<not> carries_error dataObj"
    and "property dataObj ''type'' = JStr t"
  shows "try_block env data w =
     (if t = ''hello'' then subscribeToTopic env (deviceId (this w)) (topic (this w)) w
      else if t = ''sub'' then (None, w)
      else if t = ''ping'' then respondToHeartbeatPing env w
      else if t = ''pub''
      then invoke PubMessageHandler (pubMessageHandler (this w)) (Message (property dataObj ''message'')) w
      else invoke UnexpectedMessageHandler (unexpectedMessageHandler (this w)) (Data data) w)"
proof -
  have "destructure dataObj =
      Inr (property dataObj ''type'', property dataObj ''message'', property dataObj ''payload'')"
    using typed_value [OF assms(3)] by (simp add: destructure_value)
  moreover have "\<not> (truthy (property dataObj ''payload'')
      \<and> truthy (property (property dataObj ''payload'') ''error''))"
    using assms(2) by (simp add: carries_error_def)
  ultimately show ?thesis
    using assms(1,3) by (auto simp: try_block_def)
qed

text \<open>
  What the try block does, whatever the frame: it leaves the client alone, adds handler calls
  that the client and the frame determine, and sends frames that these and the state of the
  socket determine.
\<close>

lemma try_block_this: "this (snd (try_block env data w)) = this w"
  by (simp add: try_block_def invoke_fields subscribeToTopic_eq respondToHeartbeatPing_eq
      send_fields split: sum.splits prod.splits)

lemma try_block_socket:
  "readyState (ws (snd (try_block env data w))) = readyState (ws w)"
  "close_calls (ws (snd (try_block env data w))) = close_calls (ws w)"
  by (simp_all add: try_block_def invoke_fields subscribeToTopic_eq respondToHeartbeatPing_eq
      send_fields split: sum.splits prod.splits)

lemma try_block_calls:
  assumes "this w1 = this w2"
  shows "fst (try_block env data w1) = fst (try_block env data w2)"
    and "new_calls w1 (snd (try_block env data w1)) = new_calls w2 (snd (try_block env data w2))"
    and "calls (snd (try_block env data w1)) = calls w1 @ new_calls w1 (snd (try_block env data w1))"
  using assms
  by (simp_all add: try_block_def new_calls_def invoke_fields subscribeToTopic_eq
      respondToHeartbeatPing_eq send_fields split: sum.splits prod.splits)

lemma try_block_emitted:
  assumes "this w1 = this w2" and "readyState (ws w1) = OPEN \<longleftrightarrow> readyState (ws w2) = OPEN"
  shows "emitted w1 (snd (try_block env data w1)) = emitted w2 (snd (try_block env data w2))"
    and "sent (ws (snd (try_block env data w1))) = sent (ws w1) @ emitted w1 (snd (try_block env data w1))"
  using assms
  by (simp_all add: try_block_def emitted_def invoke_fields subscribeToTopic_eq
      respondToHeartbeatPing_eq send_fields transport_open_def split: sum.splits prod.splits)

lemma messageHandler_alt:
  "messageHandler env data w =
     (case fst (try_block env data w) of
        None \<Rightarrow> (None, snd (try_block env data w))
      | Some error \<Rightarrow>
          invoke ErrorHandler (errorHandler (this w)) (Exception error) (snd (try_block env data w)))"
  using try_block_this [of env data w]
  by (cases "try_block env data w") (simp add: messageHandler_def split: option.splits)

lemma messageHandler_this: "this (snd (messageHandler env data w)) = this w"
  by (simp add: messageHandler_alt invoke_fields try_block_this split: option.splits)

lemma messageHandler_socket:
  "readyState (ws (snd (messageHandler env data w))) = readyState (ws w)"
  "close_calls (ws (snd (messageHandler env data w))) = close_calls (ws w)"
  by (simp_all add: messageHandler_alt invoke_fields try_block_socket split: option.splits)

lemma messageHandler_calls:
  assumes "this w1 = this w2"
  shows "fst (messageHandler env data w1) = fst (messageHandler env data w2)"
    and "new_calls w1 (snd (messageHandler env data w1)) = new_calls w2 (snd (messageHandler env data w2))"
    and "calls (snd (messageHandler env data w1)) = calls w1 @ new_calls w1 (snd (messageHandler env data w1))"
proof -
  note tb = try_block_calls [OF assms, of env data]
  have c1: "calls (snd (try_block env data w1)) = calls w1 @ new_calls w1 (snd (try_block env data w1))"
    by (rule tb(3))
  have c2: "calls (snd (try_block env data w2)) = calls w2 @ new_calls w1 (snd (try_block env data w1))"
    using try_block_calls(3) [of w2 w2 env data] tb(2) by simp
  show "fst (messageHandler env data w1) = fst (messageHandler env data w2)"
    using assms tb(1) by (simp add: messageHandler_alt invoke_fields split: option.splits)
  show "new_calls w1 (snd (messageHandler env data w1)) = new_calls w2 (snd (messageHandler env data w2))"
    using assms tb(1) c1 c2
    by (simp add: messageHandler_alt invoke_fields new_calls_def [of w1 "snd (invoke _ _ _ _)"]
        new_calls_def [of w2 "snd (invoke _ _ _ _)"] tb(2) split: option.splits)
  show "calls (snd (messageHandler env data w1)) = calls w1 @ new_calls w1 (snd (messageHandler env data w1))"
    using c1
    by (simp add: messageHandler_alt invoke_fields new_calls_def [of w1 "snd (invoke _ _ _ _)"]
        split: option.splits)
qed

lemma messageHandler_ws: "ws (snd (messageHandler env data w)) = ws (snd (try_block env data w))"
  by (simp add: messageHandler_alt invoke_fields split: option.splits)

lemma messageHandler_emitted:
  assumes "this w1 = this w2" and "readyState (ws w1) = OPEN \<longleftrightarrow> readyState (ws w2) = OPEN"
  shows "emitted w1 (snd (messageHandler env data w1)) = emitted w2 (snd (messageHandler env data w2))"
    and "sent (ws (snd (messageHandler env data w1))) = sent (ws w1) @ emitted w1 (snd (messageHandler env data w1))"
proof -
  have same: "emitted w (snd (messageHandler env data w)) = emitted w (snd (try_block env data w))" for w
    by (simp add: emitted_def messageHandler_ws)
  show "emitted w1 (snd (messageHandler env data w1)) = emitted w2 (snd (messageHandler env data w2))"
    using try_block_emitted(1) [OF assms, of env data] by (simp only: same)
  show "sent (ws (snd (messageHandler env data w1))) = sent (ws w1) @ emitted w1 (snd (messageHandler env data w1))"
    using try_block_emitted(2) [OF assms, of env data] by (simp only: same messageHandler_ws)
qed

section \<open>Facts about single frames and events\<close>

lemma messageHandler_of_invoke:
  assumes "try_block env data w = invoke n h a w"
  shows "messageHandler env data w =
     (case h a of
        None \<Rightarrow> (None, w\<lparr>calls := calls w @ [(n, a)]\<rparr>)
      | Some e \<Rightarrow>
          (errorHandler (this w) (Exception e),
           w\<lparr>calls := calls w @ [(n, a), (ErrorHandler, Exception e)]\<rparr>))"
  using assms by (simp add: messageHandler_def invoke_def split: option.splits)

lemma messageHandler_hello:
  assumes "JSON_parse env data = Inr dataObj" and "\<not> carries_error dataObj"
    and "property dataObj ''type'' = JStr ''hello''"
  shows "messageHandler env data w =
     (case btoa env (topic (this w)) of
        Inl e \<Rightarrow> invoke ErrorHandler (errorHandler (this w)) (Exception e) w
      | Inr topicAsBase64 \<Rightarrow>
          (None, send (JSON_stringify env
                   (subscribePayload (clientId (this w)) (deviceId (this w)) topicAsBase64)) w))"
  by (simp add: messageHandler_def try_block_dispatch [OF assms] subscribeToTopic_eq
      split: sum.splits)

lemma messageHandler_sub:
  assumes "JSON_parse env data = Inr dataObj" and "\<not> carries_error dataObj"
    and "property dataObj ''type'' = JStr ''sub''"
  shows "messageHandler env data w = (None, w)"
  by (simp add: messageHandler_def try_block_dispatch [OF assms])

lemma messageHandler_ping:
  assumes "JSON_parse env data = Inr dataObj" and "\<not> carries_error dataObj"
    and "property dataObj ''type'' = JStr ''ping''"
  shows "messageHandler env data w =
     (None, send (JSON_stringify env (pingResponsePayload (clientId (this w)))) w)"
  by (simp add: messageHandler_def try_block_dispatch [OF assms] respondToHeartbeatPing_eq)

lemma try_block_pub:
  assumes "JSON_parse env data = Inr dataObj" and "\<not> carries_error dataObj"
    and "property dataObj ''type'' = JStr ''pub''"
  shows "try_block env data w =
    invoke PubMessageHandler (pubMessageHandler (this w)) (Message (property dataObj ''message'')) w"
  by (simp add: try_block_dispatch [OF assms])

lemma trigger_of_error:
  assumes "JSON_parse env data = Inr dataObj" and "carries_error dataObj"
  shows "trigger_of env (Frame data) = Error_frame"
  using assms carries_error_value [OF assms(2)]
  by (simp add: trigger_of_def destructure_value carries_error_def)

lemma example_open_transport:
  "transport_open example_open" "\<not> transport_open example_client"
  "transport_open euro_open" "\<not> transport_open euro_client"
  by (simp_all add: transport_open_def example_open_eq euro_open_eq euro_client_eq example_client_eq)

lemma example_open_fields:
  "clientId (this example_open) = ''9''" "deviceId (this example_open) = ''D1''"
  "topic (this example_open) = utf16 ''/t''" "authorization (this example_open) = ''token''"
  "sent (ws example_open) = [hello_request]" "calls example_open = []"
  "close_calls (ws example_open) = []" "readyState (ws example_open) = OPEN"
  "pubMessageHandler (this example_open) = (\<lambda>_. None)"
  "errorHandler (this example_open) = (\<lambda>_. None)"
  "closeHandler (this example_open) = (\<lambda>_. None)"
  by (simp_all add: example_open_eq example_client_eq)

lemma euro_open_fields:
  "clientId (this euro_open) = ''9''" "deviceId (this euro_open) = ''D1''"
  "topic (this euro_open) = euro_topic" "authorization (this euro_open) = ''token''"
  "sent (ws euro_open) = [hello_request]" "calls euro_open = []"
  "errorHandler (this euro_open) = (\<lambda>_. None)"
  by (simp_all add: euro_open_eq euro_client_eq example_client_eq)

lemma example_run_open:
  "run example_env (Open # evs) example_client = run example_env evs example_open"
  "run example_env (Open # evs) euro_client = run example_env evs euro_open"
  by (simp_all add: example_open_def euro_open_def sayHello_eq)

lemma deliver_closure:
  "deliver env (Closure code reason) w =
     (closeHandler (this w) (CloseEvent code reason),
      w\<lparr>ws := (ws w)\<lparr>readyState := CLOSED\<rparr>, calls := calls w @ [(CloseHandler, CloseEvent code reason)]\<rparr>)"
  by (simp add: invoke_def)

lemma example_hello:
  "messageHandler example_env hello_ack example_open =
     (None, example_open\<lparr>ws := (ws example_open)\<lparr>sent := [hello_request, sub_request]\<rparr>\<rparr>)"
  using example_stringify(2)
  by (simp add: messageHandler_hello [OF example_parse(1) example_errors(1) example_types(1)]
      example_open_fields example_btoa send_cases example_open_transport)

lemma example_pub:
  "messageHandler example_env pub_frame w =
     (case pubMessageHandler (this w) (Message pub_message) of
        None \<Rightarrow> (None, w\<lparr>calls := calls w @ [(PubMessageHandler, Message pub_message)]\<rparr>)
      | Some e \<Rightarrow>
          (errorHandler (this w) (Exception e),
           w\<lparr>calls := calls w @ [(PubMessageHandler, Message pub_message), (ErrorHandler, Exception e)]\<rparr>))"
  by (simp add: messageHandler_of_invoke
      [OF try_block_pub [OF example_parse(4) example_errors(4) example_types(4)]] example_types
      split: option.splits)

lemma example_ping:
  "messageHandler example_env ping_frame w =
     (None, send (JSON_stringify example_env (pingResponsePayload (clientId (this w)))) w)"
  by (rule messageHandler_ping [OF example_parse(3) example_errors(3) example_types(3)])

section \<open>The claims\<close>

subsection \<open>C1: Phase gating\<close>

text \<open>
  C1, as stated, fails. The client keeps no phase: a \<open>pub\<close> frame that arrives right
  after the socket opened, before any \<open>hello\<close> or \<open>sub\<close> acknowledgement, is forwarded to
  the publish handler; and a second \<open>hello\<close> acknowledgement on the same connection makes
  the client send a second \<open>sub\<close> frame.
\<close>

theorem phase_gating_counterexample:
  "run example_env [Open, Frame pub_frame] example_client =
     (None, example_open\<lparr>calls := [(PubMessageHandler, Message pub_message)]\<rparr>)
   \<and> run example_env [Open, Frame hello_ack, Frame hello_ack] example_client =
     (None, example_open\<lparr>ws := (ws example_open)\<lparr>sent := [hello_request, sub_request, sub_request]\<rparr>\<rparr>)"
proof -
  have again: "messageHandler example_env hello_ack
        (example_open\<lparr>ws := (ws example_open)\<lparr>sent := [hello_request, sub_request]\<rparr>\<rparr>) =
      (None, example_open\<lparr>ws := (ws example_open)\<lparr>sent := [hello_request, sub_request, sub_request]\<rparr>\<rparr>)"
    using example_stringify(2)
    by (simp add: messageHandler_hello [OF example_parse(1) example_errors(1) example_types(1)]
        example_open_fields example_btoa send_cases transport_open_def)
       (simp add: example_open_eq example_client_eq)
  have forwarded: "run example_env [Open, Frame pub_frame] example_client =
      (None, example_open\<lparr>calls := [(PubMessageHandler, Message pub_message)]\<rparr>)"
    by (simp only: example_run_open) (simp add: example_pub example_open_fields)
  have twice: "run example_env [Open, Frame hello_ack, Frame hello_ack] example_client =
     (None, example_open\<lparr>ws := (ws example_open)\<lparr>sent := [hello_request, sub_request, sub_request]\<rparr>\<rparr>)"
    by (simp only: example_run_open) (simp add: example_hello again)
  show ?thesis
    using forwarded twice by blast
qed

text \<open>
  C1, amended: whatever events came before, every inbound \<open>pub\<close> frame without a truthy
  \<open>payload.error\<close> is forwarded to the publish handler (and what that handler throws, to the
  error handler). Every inbound \<open>hello\<close> frame without a truthy \<open>payload.error\<close> makes the
  client encode its topic with \<open>btoa\<close>: if \<open>btoa\<close> returns, the client calls no handler and
  sends one \<open>sub\<close> frame if the transport is open, and none otherwise; if \<open>btoa\<close> throws,
  as that of the standard does on a topic with a code unit above \<open>U+00FF\<close>, the client sends
  nothing and calls the error handler with the exception.
\<close>

theorem frames_handled_in_any_order:
  assumes "JSON_parse env data = Inr dataObj" and "\<not> carries_error dataObj"
  shows "let w = snd (run env evs w0) in
     (property dataObj ''type'' = JStr ''pub'' \<longrightarrow>
        new_calls w (snd (deliver env (Frame data) w)) =
          (PubMessageHandler, Message (property dataObj ''message''))
          # (case pubMessageHandler (this w) (Message (property dataObj ''message'')) of
               None \<Rightarrow> [] | Some e \<Rightarrow> [(ErrorHandler, Exception e)]))
     \<and> (property dataObj ''type'' = JStr ''hello'' \<longrightarrow>
          (case btoa env (topic (this w)) of
             Inr topicAsBase64 \<Rightarrow>
               new_calls w (snd (deliver env (Frame data) w)) = []
               \<and> emitted w (snd (deliver env (Frame data) w)) =
                   (if transport_open w
                    then [JSON_stringify env
                            (JObj [(''id'', JStr (clientId (this w))),
                                   (''path'', JStr (''/devices/'' @ deviceId (this w)
                                                     @ ''/netfieldproxy/'' @ topicAsBase64)),
                                   (''type'', JStr ''sub'')])]
                    else [])
           | Inl e \<Rightarrow>
               new_calls w (snd (deliver env (Frame data) w)) = [(ErrorHandler, Exception e)]
               \<and> emitted w (snd (deliver env (Frame data) w)) = []))"
proof -
  have pub: "new_calls w (snd (messageHandler env data w)) =
      (PubMessageHandler, Message (property dataObj ''message''))
      # (case pubMessageHandler (this w) (Message (property dataObj ''message'')) of
           None \<Rightarrow> [] | Some e \<Rightarrow> [(ErrorHandler, Exception e)])"
    if "property dataObj ''type'' = JStr ''pub''" for w
    by (simp add: messageHandler_of_invoke [OF try_block_pub [OF assms that]] new_calls_def
        split: option.splits)
  have hello: "(case btoa env (topic (this w)) of
         Inr topicAsBase64 \<Rightarrow>
           new_calls w (snd (messageHandler env data w)) = []
           \<and> emitted w (snd (messageHandler env data w)) =
               (if transport_open w
                then [JSON_stringify env
                        (JObj [(''id'', JStr (clientId (this w))),
                               (''path'', JStr (''/devices/'' @ deviceId (this w)
                                                 @ ''/netfieldproxy/'' @ topicAsBase64)),
                               (''type'', JStr ''sub'')])]
                else [])
       | Inl e \<Rightarrow>
           new_calls w (snd (messageHandler env data w)) = [(ErrorHandler, Exception e)]
           \<and> emitted w (snd (messageHandler env data w)) = [])"
    if "property dataObj ''type'' = JStr ''hello''" for w
    by (simp add: messageHandler_hello [OF assms that] send_cases emitted_def new_calls_def
        subscribePayload_def invoke_def split: sum.splits)
  show ?thesis
    unfolding Let_def deliver.simps using pub hello by blast
qed

text \<open>
  C1, amended, on the concrete session: the \<open>pub\<close> frame of the scenario and a \<open>hello\<close>
  acknowledgement, each received right after the socket opened; and a \<open>hello\<close>
  acknowledgement received by the client whose topic \<open>btoa\<close> rejects.
\<close>

theorem frames_handled_in_any_order_witness:
  "JSON_parse example_env pub_frame = Inr pub_value \<and> \<not> carries_error pub_value
   \<and> property pub_value ''type'' = JStr ''pub''
   \<and> JSON_parse example_env hello_ack = Inr hello_ack_value \<and> \<not> carries_error hello_ack_value
   \<and> property hello_ack_value ''type'' = JStr ''hello''
   \<and> snd (run example_env [Open] example_client) = example_open
   \<and> transport_open example_open
   \<and> btoa example_env (topic (this example_open)) = Inr ''L3Q=''
   \<and> new_calls example_open (snd (deliver example_env (Frame pub_frame) example_open)) =
       [(PubMessageHandler, Message pub_message)]
   \<and> emitted example_open (snd (deliver example_env (Frame hello_ack) example_open)) = [sub_request]
   \<and> snd (run example_env [Open] euro_client) = euro_open
   \<and> btoa example_env (topic (this euro_open)) = Inl InvalidCharacterError
   \<and> new_calls euro_open (snd (deliver example_env (Frame hello_ack) euro_open)) =
       [(ErrorHandler, Exception InvalidCharacterError)]
   \<and> emitted euro_open (snd (deliver example_env (Frame hello_ack) euro_open)) = []"
proof -
  have opened: "snd (run example_env [Open] example_client) = example_open"
    "snd (run example_env [Open] euro_client) = euro_open"
    using example_run_open [of "[]"] by simp_all
  have encoded: "btoa example_env (topic (this example_open)) = Inr ''L3Q=''"
    "btoa example_env (topic (this euro_open)) = Inl InvalidCharacterError"
    by (simp_all add: example_open_fields euro_open_fields example_btoa)
  note forwarded = frames_handled_in_any_order [OF example_parse(4) example_errors(4),
      of "[Open]" example_client, unfolded opened Let_def]
  note subscribed = frames_handled_in_any_order [OF example_parse(1) example_errors(1),
      of "[Open]" example_client, unfolded opened Let_def encoded sum.case]
  note refused = frames_handled_in_any_order [OF example_parse(1) example_errors(1),
      of "[Open]" euro_client, unfolded opened Let_def encoded sum.case]
  have "new_calls example_open (snd (deliver example_env (Frame pub_frame) example_open)) =
      [(PubMessageHandler, Message pub_message)]"
    using forwarded
    by (simp add: example_types example_open_fields del: deliver.simps)
  moreover have "emitted example_open (snd (deliver example_env (Frame hello_ack) example_open)) =
      [sub_request]"
    using subscribed example_stringify(2) [unfolded subscribePayload_def]
    by (simp add: example_types example_open_fields example_open_transport
        del: deliver.simps)
  moreover have "new_calls euro_open (snd (deliver example_env (Frame hello_ack) euro_open)) =
      [(ErrorHandler, Exception InvalidCharacterError)]
    \<and> emitted euro_open (snd (deliver example_env (Frame hello_ack) euro_open)) = []"
    using refused
    by (simp add: example_types del: deliver.simps)
  ultimately show ?thesis
    using example_parse(1,4) example_errors(1,4) example_types(1,4) example_open_transport(1)
      opened encoded
    by blast
qed

subsection \<open>C2: The handshake\<close>

text \<open>
  C2, as stated, fails. For the client whose topic is \<open>"/"\<close> followed by the euro sign, the
  \<open>btoa\<close> of the standard throws when the \<open>hello\<close> acknowledgement arrives: after the open
  event, the \<open>hello\<close> acknowledgement and the \<open>sub\<close> acknowledgement, the only frame sent is
  the \<open>hello\<close> frame, no \<open>sub\<close> frame was sent, and the error handler was called with the
  exception.
\<close>

theorem handshake_without_sub_counterexample:
  "JSON_parse example_env hello_ack = Inr hello_ack_value \<and> \<not> carries_error hello_ack_value
   \<and> property hello_ack_value ''type'' = JStr ''hello''
   \<and> JSON_parse example_env sub_ack = Inr sub_ack_value \<and> \<not> carries_error sub_ack_value
   \<and> property sub_ack_value ''type'' = JStr ''sub''
   \<and> topic (this euro_client) = [47, 8364]
   \<and> run example_env [Open, Frame hello_ack, Frame sub_ack] euro_client =
       (None, euro_open\<lparr>calls := [(ErrorHandler, Exception InvalidCharacterError)]\<rparr>)
   \<and> sent (ws euro_open) = [hello_request]"
proof -
  have hello: "messageHandler example_env hello_ack euro_open =
      (None, euro_open\<lparr>calls := [(ErrorHandler, Exception InvalidCharacterError)]\<rparr>)"
    by (simp add: messageHandler_hello [OF example_parse(1) example_errors(1) example_types(1)]
        euro_open_fields example_btoa invoke_def)
  have sub: "messageHandler example_env sub_ack w = (None, w)" for w
    by (rule messageHandler_sub [OF example_parse(2) example_errors(2) example_types(2)])
  have "run example_env [Open, Frame hello_ack, Frame sub_ack] euro_client =
      (None, euro_open\<lparr>calls := [(ErrorHandler, Exception InvalidCharacterError)]\<rparr>)"
    by (simp only: example_run_open) (simp add: hello sub)
  moreover have "topic (this euro_client) = [47, 8364]"
    by (simp add: euro_client_eq euro_topic_def)
  ultimately show ?thesis
    using example_parse(1,2) example_errors(1,2) example_types(1,2) euro_open_fields(5)
    by blast
qed

text \<open>
  C2, amended: for a freshly constructed client whose topic \<open>btoa\<close> encodes, after the
  transport's open event, an inbound \<open>hello\<close> acknowledgement without error and an inbound
  \<open>sub\<close> acknowledgement without error, no exception has left a handler, no handler was
  called, the socket is open, and exactly two frames were sent: the \<open>hello\<close> frame and then
  one \<open>sub\<close> frame, whose \<open>id\<close> is the \<open>clientId\<close> of the session and whose \<open>path\<close> is
  \<open>"/devices/" + deviceId + "/netfieldproxy/" + btoa(topic)\<close>. The client keeps no phase;
  in the world it is in then it does what the specification says of \<open>ACTIVE\<close>: an inbound
  \<open>ping\<close> frame without error is answered with one \<open>ping\<close> response, and an inbound
  \<open>pub\<close> frame without error is forwarded to the publish handler.
\<close>

theorem handshake_sends_one_sub:
  assumes "JSON_parse env hello = Inr helloObj" and "\<not> carries_error helloObj"
    and "property helloObj ''type'' = JStr ''hello''"
    and "JSON_parse env sub = Inr subObj" and "\<not> carries_error subObj"
    and "property subObj ''type'' = JStr ''sub''"
    and "btoa env topic' = Inr topicAsBase64"
    and "w0 = constructor env random endpoint' authorization' deviceId' topic' hs"
    and "w' = snd (run env [Open, Frame hello, Frame sub] w0)"
  shows "run env [Open, Frame hello, Frame sub] w0 =
     (None,
      w0\<lparr>ws := \<lparr>readyState = OPEN,
                sent = [JSON_stringify env (helloPayload (clientId (this w0)) authorization'),
                        JSON_stringify env
                          (JObj [(''id'', JStr (clientId (this w0))),
                                 (''path'', JStr (''/devices/'' @ deviceId' @ ''/netfieldproxy/''
                                                   @ topicAsBase64)),
                                 (''type'', JStr ''sub'')])],
                close_calls = []\<rparr>\<rparr>)
     \<and> (\<forall>data dataObj.
          JSON_parse env data = Inr dataObj \<and> \<not> carries_error dataObj
          \<and> property dataObj ''type'' = JStr ''ping'' \<longrightarrow>
            new_calls w' (snd (messageHandler env data w')) = []
            \<and> emitted w' (snd (messageHandler env data w')) =
                [JSON_stringify env (JObj [(''id'', JStr (clientId (this w0))), (''type'', JStr ''ping'')])])
     \<and> (\<forall>data dataObj.
          JSON_parse env data = Inr dataObj \<and> \<not> carries_error dataObj
          \<and> property dataObj ''type'' = JStr ''pub'' \<longrightarrow>
            emitted w' (snd (messageHandler env data w')) = []
            \<and> new_calls w' (snd (messageHandler env data w')) =
                (PubMessageHandler, Message (property dataObj ''message''))
                # (case pubMessageHandler (this w0) (Message (property dataObj ''message'')) of
                     None \<Rightarrow> [] | Some e \<Rightarrow> [(ErrorHandler, Exception e)]))"
proof -
  let ?opened = "w0\<lparr>ws := (ws w0)\<lparr>readyState := OPEN\<rparr>\<rparr>"
  let ?hello = "JSON_stringify env (helloPayload (clientId (this w0)) authorization')"
  let ?sub = "JSON_stringify env (subscribePayload (clientId (this w0)) deviceId' topicAsBase64)"
  let ?end = "w0\<lparr>ws := \<lparr>readyState = OPEN, sent = [?hello, ?sub], close_calls = []\<rparr>\<rparr>"
  have fresh: "wsClient (this w0) = Some Socket" "ws w0 = \<lparr>readyState = CONNECTING, sent = [], close_calls = []\<rparr>"
    "authorization (this w0) = authorization'" "deviceId (this w0) = deviceId'"
    "topic (this w0) = topic'"
    by (simp_all add: assms(8) constructor_def)
  have first: "sayHello env ?opened =
      (None, w0\<lparr>ws := \<lparr>readyState = OPEN, sent = [?hello], close_calls = []\<rparr>\<rparr>)"
    by (simp add: sayHello_eq send_cases transport_open_def fresh)
  have second: "messageHandler env hello (w0\<lparr>ws := \<lparr>readyState = OPEN, sent = [?hello], close_calls = []\<rparr>\<rparr>)
      = (None, ?end)"
    by (simp add: messageHandler_hello [OF assms(1-3)] fresh assms(7) send_cases transport_open_def)
  have third: "messageHandler env sub ?end = (None, ?end)"
    by (rule messageHandler_sub [OF assms(4-6)])
  have run: "run env [Open, Frame hello, Frame sub] w0 = (None, ?end)"
    by (simp add: first second third)
  have w': "w' = ?end"
    by (simp only: assms(9) run snd_conv)
  have active: "transport_open w'" "this w' = this w0"
    by (simp_all add: w' transport_open_def fresh)
  have ping: "new_calls w' (snd (messageHandler env data w')) = []
      \<and> emitted w' (snd (messageHandler env data w')) =
          [JSON_stringify env (JObj [(''id'', JStr (clientId (this w0))), (''type'', JStr ''ping'')])]"
    if "JSON_parse env data = Inr dataObj" "\<not> carries_error dataObj"
      "property dataObj ''type'' = JStr ''ping''" for data dataObj
    by (simp add: messageHandler_ping [OF that] send_cases active new_calls_def emitted_def
        pingResponsePayload_def)
  have pub: "emitted w' (snd (messageHandler env data w')) = []
      \<and> new_calls w' (snd (messageHandler env data w')) =
          (PubMessageHandler, Message (property dataObj ''message''))
          # (case pubMessageHandler (this w0) (Message (property dataObj ''message'')) of
               None \<Rightarrow> [] | Some e \<Rightarrow> [(ErrorHandler, Exception e)])"
    if "JSON_parse env data = Inr dataObj" "\<not> carries_error dataObj"
      "property dataObj ''type'' = JStr ''pub''" for data dataObj
    by (simp add: messageHandler_of_invoke [OF try_block_pub [OF that]] active new_calls_def
        emitted_def split: option.splits)
  have frames: "run env [Open, Frame hello, Frame sub] w0 =
     (None,
      w0\<lparr>ws := \<lparr>readyState = OPEN,
                sent = [JSON_stringify env (helloPayload (clientId (this w0)) authorization'),
                        JSON_stringify env
                          (JObj [(''id'', JStr (clientId (this w0))),
                                 (''path'', JStr (''/devices/'' @ deviceId' @ ''/netfieldproxy/''
                                                   @ topicAsBase64)),
                                 (''type'', JStr ''sub'')])],
                close_calls = []\<rparr>\<rparr>)"
    using run by (simp only: subscribePayload_def)
  show ?thesis
    using frames ping pub by blast
qed

text \<open>
  C2, amended, on the concrete session: device \<open>D1\<close>, topic \<open>/t\<close>, whose base64 is
  \<open>L3Q=\<close>; afterwards the \<open>ping\<close> frame is answered and the \<open>pub\<close> frame of the scenario
  is forwarded.
\<close>

theorem handshake_sends_one_sub_witness:
  "JSON_parse example_env hello_ack = Inr hello_ack_value \<and> \<not> carries_error hello_ack_value
   \<and> property hello_ack_value ''type'' = JStr ''hello''
   \<and> JSON_parse example_env sub_ack = Inr sub_ack_value \<and> \<not> carries_error sub_ack_value
   \<and> property sub_ack_value ''type'' = JStr ''sub''
   \<and> btoa example_env (utf16 ''/t'') = Inr ''L3Q=''
   \<and> run example_env [Open, Frame hello_ack, Frame sub_ack] example_client =
       (None, example_client\<lparr>ws := \<lparr>readyState = OPEN, sent = [hello_request, sub_request],
                                    close_calls = []\<rparr>\<rparr>)
   \<and> emitted (snd (run example_env [Open, Frame hello_ack, Frame sub_ack] example_client))
       (snd (messageHandler example_env ping_frame
              (snd (run example_env [Open, Frame hello_ack, Frame sub_ack] example_client))))
       = [ping_response]
   \<and> new_calls (snd (run example_env [Open, Frame hello_ack, Frame sub_ack] example_client))
       (snd (messageHandler example_env pub_frame
              (snd (run example_env [Open, Frame hello_ack, Frame sub_ack] example_client))))
       = [(PubMessageHandler, Message pub_message)]"
proof -
  have cid: "clientId (this example_client) = ''9''"
    and pubh: "pubMessageHandler (this example_client) (Message pub_message) = None"
    by (simp_all add: example_client_eq)
  note handshake = handshake_sends_one_sub [OF example_parse(1) example_errors(1) example_types(1)
      example_parse(2) example_errors(2) example_types(2) example_btoa(1) example_client_def refl,
      unfolded cid example_stringify(1) example_stringify(2) [unfolded subscribePayload_def]
        example_stringify(3) [unfolded pingResponsePayload_def]]
  have sent: "run example_env [Open, Frame hello_ack, Frame sub_ack] example_client =
       (None, example_client\<lparr>ws := \<lparr>readyState = OPEN, sent = [hello_request, sub_request],
                                    close_calls = []\<rparr>\<rparr>)"
    using handshake by blast
  have "emitted (snd (run example_env [Open, Frame hello_ack, Frame sub_ack] example_client))
       (snd (messageHandler example_env ping_frame
              (snd (run example_env [Open, Frame hello_ack, Frame sub_ack] example_client))))
       = [ping_response]"
    using handshake example_parse(3) example_errors(3) example_types(3) by blast
  moreover have "new_calls (snd (run example_env [Open, Frame hello_ack, Frame sub_ack] example_client))
       (snd (messageHandler example_env pub_frame
              (snd (run example_env [Open, Frame hello_ack, Frame sub_ack] example_client))))
       = (PubMessageHandler, Message (property pub_value ''message''))
         # (case pubMessageHandler (this example_client) (Message (property pub_value ''message'')) of
              None \<Rightarrow> [] | Some e \<Rightarrow> [(ErrorHandler, Exception e)])"
    using handshake example_parse(4) example_errors(4) example_types(4) by blast
  then have "new_calls (snd (run example_env [Open, Frame hello_ack, Frame sub_ack] example_client))
       (snd (messageHandler example_env pub_frame
              (snd (run example_env [Open, Frame hello_ack, Frame sub_ack] example_client))))
       = [(PubMessageHandler, Message pub_message)]"
    by (simp only: example_types pubh option.case)
  ultimately show ?thesis
    using sent example_parse(1,2) example_errors(1,2) example_types(1,2) example_btoa(1)
    by blast
qed

subsection \<open>C3: Error precedence\<close>

text \<open>
  C3: for every inbound frame whose decoded payload carries a truthy \<open>payload.error\<close>, the error
  handler is called with the text of that frame; no other handler is called (the only
  further call is of the error handler again, with what it threw, if it threw); the type of
  the frame is not dispatched, nothing is sent, the client and its socket are unchanged, and
  the phase of the table of the specification is unchanged.
\<close>

theorem error_precedence:
  assumes "JSON_parse env data = Inr dataObj" and "carries_error dataObj"
  shows "messageHandler env data w =
     (case errorHandler (this w) (Data data) of
        None \<Rightarrow> (None, w\<lparr>calls := calls w @ [(ErrorHandler, Data data)]\<rparr>)
      | Some e \<Rightarrow>
          (errorHandler (this w) (Exception e),
           w\<lparr>calls := calls w @ [(ErrorHandler, Data data), (ErrorHandler, Exception e)]\<rparr>))
     \<and> spec_phase_step p (trigger_of env (Frame data)) = p"
proof -
  have "spec_phase_step p Error_frame = p"
    by (cases p) simp_all
  then show ?thesis
    by (simp add: messageHandler_of_invoke [OF try_block_error [OF assms]] trigger_of_error [OF assms])
qed

text \<open>
  C3 on the concrete session: a \<open>hello\<close> frame that carries an error sends no \<open>sub\<close> frame.
\<close>

theorem error_precedence_witness:
  "JSON_parse example_env hello_error_frame = Inr hello_error_value
   \<and> carries_error hello_error_value
   \<and> messageHandler example_env hello_error_frame example_open =
       (None, example_open\<lparr>calls := [(ErrorHandler, Data hello_error_frame)]\<rparr>)
   \<and> emitted example_open (snd (messageHandler example_env hello_error_frame example_open)) = []
   \<and> spec_phase_step AWAITING_HELLO_ACK (trigger_of example_env (Frame hello_error_frame))
       = AWAITING_HELLO_ACK"
  using error_precedence [OF example_parse(6) example_errors(6), of example_open AWAITING_HELLO_ACK]
  by (simp add: example_parse example_errors example_open_fields emitted_def)

subsection \<open>C4: Close\<close>

text \<open>
  C4, as stated, fails. While the socket is still connecting, \<open>close\<close> does nothing: the
  socket is not released, and the open event and the \<open>hello\<close> acknowledgement that follow are
  acted on as if \<open>close\<close> had not been called. And a \<open>pub\<close> frame delivered after \<open>close\<close>
  was called on an open socket is forwarded to the publish handler.
\<close>

theorem close_while_connecting_counterexample:
  "readyState (ws example_client) = CONNECTING
   \<and> close example_env None None example_client = (None, example_client)
   \<and> run example_env [Open, Frame hello_ack] (snd (close example_env None None example_client)) =
       (None, example_open\<lparr>ws := (ws example_open)\<lparr>sent := [hello_request, sub_request]\<rparr>\<rparr>)
   \<and> messageHandler example_env pub_frame (snd (close example_env None None example_open)) =
       (None, (snd (close example_env None None example_open))
                \<lparr>calls := [(PubMessageHandler, Message pub_message)]\<rparr>)"
proof -
  have connecting: "readyState (ws example_client) = CONNECTING"
    by (simp add: example_client_eq)
  have noop: "close example_env None None example_client = (None, example_client)"
    by (simp add: close_cases example_open_transport)
  have later: "run example_env [Open, Frame hello_ack] example_client =
      (None, example_open\<lparr>ws := (ws example_open)\<lparr>sent := [hello_request, sub_request]\<rparr>\<rparr>)"
    by (simp only: example_run_open) (simp add: example_hello)
  have pub: "messageHandler example_env pub_frame (snd (close example_env None None example_open)) =
      (None, (snd (close example_env None None example_open))
               \<lparr>calls := [(PubMessageHandler, Message pub_message)]\<rparr>)"
    by (simp add: example_pub close_fields example_open_fields)
  show ?thesis
    using connecting later pub by (simp only: noop snd_conv simp_thms)
qed

text \<open>
  C4, amended: if the transport is open, \<open>close\<close> calls the socket's \<open>close\<close> exactly once,
  with the code and reason of the caller; if the socket accepts them it leaves the open
  state, and if it rejects them its \<open>close\<close> throws and the exception leaves \<open>close\<close>: a
  socket that checks first stays open, a socket that marks itself closing first is closing.
  If the transport is not open, connecting included, \<open>close\<close> does nothing. \<open>close\<close> itself calls no handler: the close handler is called, once, when the
  transport reports the closure. A frame delivered after \<open>close\<close> leads to the same handler
  calls as it would have led to without it.
\<close>

theorem close_when_open:
  "close env code data w =
     (if transport_open w
      then (case WebSocket_close_check env code data of
              None \<Rightarrow>
                (None,
                 w\<lparr>ws := (ws w)\<lparr>readyState := CLOSING,
                                 close_calls := close_calls (ws w) @ [(code, data)]\<rparr>\<rparr>)
            | Some e \<Rightarrow>
                (Some e,
                 w\<lparr>ws := (ws w)\<lparr>readyState := (if WebSocket_closing_before_check env then CLOSING else OPEN),
                                 close_calls := close_calls (ws w) @ [(code, data)]\<rparr>\<rparr>))
      else (None, w))
   \<and> new_calls w (snd (close env code data w)) = []
   \<and> deliver env (Closure code' reason) w =
       (closeHandler (this w) (CloseEvent code' reason),
        w\<lparr>ws := (ws w)\<lparr>readyState := CLOSED\<rparr>,
          calls := calls w @ [(CloseHandler, CloseEvent code' reason)]\<rparr>)
   \<and> new_calls (snd (close env code data w))
        (snd (messageHandler env frame (snd (close env code data w)))) =
       new_calls w (snd (messageHandler env frame w))"
proof -
  have "this (snd (close env code data w)) = this w"
    by (rule close_fields(1))
  then have "new_calls (snd (close env code data w))
        (snd (messageHandler env frame (snd (close env code data w)))) =
      new_calls w (snd (messageHandler env frame w))"
    by (rule messageHandler_calls(2))
  moreover have "new_calls w (snd (close env code data w)) = []"
    by (simp add: new_calls_def close_fields)
  moreover have "close env code data w =
     (if transport_open w
      then (case WebSocket_close_check env code data of
              None \<Rightarrow>
                (None,
                 w\<lparr>ws := (ws w)\<lparr>readyState := CLOSING,
                                 close_calls := close_calls (ws w) @ [(code, data)]\<rparr>\<rparr>)
            | Some e \<Rightarrow>
                (Some e,
                 w\<lparr>ws := (ws w)\<lparr>readyState := (if WebSocket_closing_before_check env then CLOSING else OPEN),
                                 close_calls := close_calls (ws w) @ [(code, data)]\<rparr>\<rparr>))
      else (None, w))"
    by (simp add: close_cases split: option.splits)
  ultimately show ?thesis
    using deliver_closure [of env code' reason w] by blast
qed

text \<open>
  C4, amended, on the concrete session: \<open>close(1000, "bye")\<close> on the open socket, which the
  socket accepts; \<open>close(1)\<close> on the open socket, which it rejects, for a socket that checks
  first and for one that marks itself closing first; and \<open>close(1000, "bye")\<close> on the
  connecting one.
\<close>

theorem close_when_open_witness:
  "transport_open example_open
   \<and> close example_env (Some 1000) (Some ''bye'') example_open =
       (None, example_open\<lparr>ws := \<lparr>readyState = CLOSING, sent = [hello_request],
                                   close_calls = [(Some 1000, Some ''bye'')]\<rparr>\<rparr>)
   \<and> close example_env (Some 1) None example_open =
       (Some InvalidAccessError,
        example_open\<lparr>ws := \<lparr>readyState = OPEN, sent = [hello_request],
                             close_calls = [(Some 1, None)]\<rparr>\<rparr>)
   \<and> close eager_env (Some 1) None example_open =
       (Some InvalidAccessError,
        example_open\<lparr>ws := \<lparr>readyState = CLOSING, sent = [hello_request],
                             close_calls = [(Some 1, None)]\<rparr>\<rparr>)
   \<and> \<not> transport_open example_client
   \<and> close example_env (Some 1000) (Some ''bye'') example_client = (None, example_client)"
proof -
  have open_socket: "ws example_open = \<lparr>readyState = OPEN, sent = [hello_request], close_calls = []\<rparr>"
    by (simp add: example_open_eq)
  have "close example_env (Some 1000) (Some ''bye'') example_open =
       (None, example_open\<lparr>ws := \<lparr>readyState = CLOSING, sent = [hello_request],
                                   close_calls = [(Some 1000, Some ''bye'')]\<rparr>\<rparr>)"
    using close_when_open [of example_env "Some 1000" "Some ''bye''" example_open]
    by (simp add: example_open_transport example_close_check open_socket)
  moreover have "close example_env (Some 1) None example_open =
       (Some InvalidAccessError,
        example_open\<lparr>ws := \<lparr>readyState = OPEN, sent = [hello_request],
                             close_calls = [(Some 1, None)]\<rparr>\<rparr>)"
    using close_when_open [of example_env "Some 1" None example_open]
    by (simp add: example_open_transport example_close_check example_closing_before_check
        open_socket)
  moreover have "close eager_env (Some 1) None example_open =
       (Some InvalidAccessError,
        example_open\<lparr>ws := \<lparr>readyState = CLOSING, sent = [hello_request],
                             close_calls = [(Some 1, None)]\<rparr>\<rparr>)"
    using close_when_open [of eager_env "Some 1" None example_open]
    by (simp add: example_open_transport example_close_check example_closing_before_check
        open_socket)
  moreover have "close example_env (Some 1000) (Some ''bye'') example_client = (None, example_client)"
    using close_when_open [of example_env "Some 1000" "Some ''bye''" example_client]
    by (simp add: example_open_transport)
  ultimately show ?thesis
    using example_open_transport(1,2) by blast
qed

subsection \<open>C5: The generated clientId\<close>

text \<open>
  C5 fails on the code: when \<open>Math.random()\<close> returns \<open>0\<close>, \<open>(0 + 1).toString(36)\<close> is
  \<open>"1"\<close>, and \<open>"1".substring(7)\<close> is the empty string; when it returns \<open>0.5\<close>,
  \<open>(1.5).toString(36)\<close> is \<open>"1.i"\<close>, and the \<open>clientId\<close> is empty again.
\<close>

theorem clientId_empty_for_short_random:
  "clientId (this (constructor example_env 0 ''wss://x'' ''token'' ''D1'' (utf16 ''/t'') default_handlers)) = []
   \<and> clientId (this (constructor example_env (1 / 2) ''wss://x'' ''token'' ''D1'' (utf16 ''/t'') default_handlers)) = []"
  by (simp add: constructor_def example_env_def plus_one_examples toString36_table_def
      radix36_renderings_def)

subsection \<open>C6: The send guard\<close>

text \<open>
  C6, as stated, fails: \<open>sendObject\<close> and \<open>subscribeToTopic\<close> encode before \<open>send\<close> tests
  the socket, and what the encoding throws leaves the call whatever the state of the socket.
  On a socket that is still connecting, \<open>sendObject(1n)\<close> throws the \<open>TypeError\<close> of
  \<open>JSON.stringify\<close>, and subscribing to the topic \<open>"/"\<close> followed by the euro sign throws
  the \<open>InvalidCharacterError\<close> of \<open>btoa\<close>.
\<close>

theorem send_guard_counterexample:
  "\<not> transport_open example_client
   \<and> sendObject example_env (JBigInt 1) example_client =
       (Some (TypeError ''Do not know how to serialize a BigInt''), example_client)
   \<and> subscribeToTopic example_env ''D1'' [47, 8364] example_client =
       (Some InvalidCharacterError, example_client)"
  using example_btoa(2)
  by (simp add: sendObject_cases subscribeToTopic_eq example_open_transport euro_topic_def)

text \<open>
  C6, amended: while the transport is not open, no outbound send hands anything to the socket,
  keeps anything for later or calls a handler: \<open>send\<close>, \<open>sendObject\<close> and the three frames
  of the protocol (\<open>subscribeToTopic\<close>, \<open>_sayHello\<close>, \<open>_respondToHeartbeatPing\<close>) leave the
  world as it is. \<open>send\<close>, \<open>_sayHello\<close> and \<open>_respondToHeartbeatPing\<close> throw nothing;
  \<open>sendObject\<close> throws exactly when \<open>JSON.stringify\<close> throws on its argument, and
  \<open>subscribeToTopic\<close> exactly when \<open>btoa\<close> throws on the topic.
\<close>

theorem send_guard:
  assumes "\<not> transport_open w"
  shows "send dataString w = w
     \<and> sendObject env dataObj w =
         (if has_bigint dataObj then Some (TypeError ''Do not know how to serialize a BigInt'')
          else None, w)
     \<and> subscribeToTopic env deviceId' topic' w =
         (case btoa env topic' of Inl e \<Rightarrow> Some e | Inr topicAsBase64 \<Rightarrow> None, w)
     \<and> sayHello env w = (None, w)
     \<and> respondToHeartbeatPing env w = (None, w)"
  using assms
  by (simp add: send_cases sendObject_cases subscribeToTopic_eq sayHello_eq
      respondToHeartbeatPing_eq split: sum.splits)

text \<open>
  C6, amended, on the concrete session, before the socket has opened.
\<close>

theorem send_guard_witness:
  "\<not> transport_open example_client
   \<and> send ping_response example_client = example_client
   \<and> sendObject example_env ping_value example_client = (None, example_client)
   \<and> subscribeToTopic example_env ''D1'' (utf16 ''/t'') example_client = (None, example_client)
   \<and> sayHello example_env example_client = (None, example_client)
   \<and> respondToHeartbeatPing example_env example_client = (None, example_client)"
  using send_guard [OF example_open_transport(2), of ping_response example_env ping_value "''D1''"
      "utf16 ''/t''"]
  by (simp add: example_open_transport example_btoa ping_value_def)

subsection \<open>C7: Close twice\<close>

text \<open>
  C7, as stated, fails. On a socket that is still connecting, two calls of \<open>close\<close> call the
  close handler not once but never, and the socket's \<open>close\<close> never either.
\<close>

theorem close_twice_counterexample:
  "new_calls example_client
     (snd (close example_env None None (snd (close example_env None None example_client)))) = []
   \<and> close_calls (ws (snd (close example_env None None
                             (snd (close example_env None None example_client))))) = []
   \<and> close example_env None None (snd (close example_env None None example_client)) =
       (None, example_client)"
  by (simp add: close_cases example_open_transport new_calls_def) (simp add: example_client_eq)

text \<open>
  C7, amended: neither of two calls of \<open>close\<close> in succession calls a handler; the close handler
  is called once for each closure the transport reports. If the transport is not open, both
  calls do nothing. If it is open and the socket accepts the arguments of the first call, the
  first call is the only call of the socket's \<open>close\<close>, the socket is closing, and the second
  call does nothing. If it is open and the socket rejects the arguments of the first call,
  the first call throws; a socket that checks first stays open, so that the second call calls
  the socket's \<open>close\<close> again, and a socket that marks itself closing first is closing, so
  that the second call does nothing.
\<close>

theorem close_twice:
  "(\<not> transport_open w \<longrightarrow>
      close env code1 data1 w = (None, w)
      \<and> close env code2 data2 (snd (close env code1 data1 w)) = (None, w))
   \<and> (transport_open w \<and> WebSocket_close_check env code1 data1 = None \<longrightarrow>
      close env code2 data2 (snd (close env code1 data1 w)) = (None, snd (close env code1 data1 w))
      \<and> readyState (ws (snd (close env code1 data1 w))) = CLOSING
      \<and> close_calls (ws (snd (close env code2 data2 (snd (close env code1 data1 w))))) =
          close_calls (ws w) @ [(code1, data1)])
   \<and> (transport_open w \<and> WebSocket_close_check env code1 data1 \<noteq> None
        \<and> \<not> WebSocket_closing_before_check env \<longrightarrow>
      fst (close env code1 data1 w) = WebSocket_close_check env code1 data1
      \<and> transport_open (snd (close env code1 data1 w))
      \<and> close_calls (ws (snd (close env code2 data2 (snd (close env code1 data1 w))))) =
          close_calls (ws w) @ [(code1, data1), (code2, data2)])
   \<and> (transport_open w \<and> WebSocket_close_check env code1 data1 \<noteq> None
        \<and> WebSocket_closing_before_check env \<longrightarrow>
      fst (close env code1 data1 w) = WebSocket_close_check env code1 data1
      \<and> readyState (ws (snd (close env code1 data1 w))) = CLOSING
      \<and> close env code2 data2 (snd (close env code1 data1 w)) = (None, snd (close env code1 data1 w))
      \<and> close_calls (ws (snd (close env code2 data2 (snd (close env code1 data1 w))))) =
          close_calls (ws w) @ [(code1, data1)])
   \<and> new_calls w (snd (close env code2 data2 (snd (close env code1 data1 w)))) = []
   \<and> new_calls w (snd (deliver env (Closure code reason) w)) = [(CloseHandler, CloseEvent code reason)]"
proof -
  have closed: "close env code1 data1 w = (None, w)
      \<and> close env code2 data2 (snd (close env code1 data1 w)) = (None, w)"
    if "\<not> transport_open w"
    using that by (simp add: close_cases)
  have accepted: "close env code2 data2 (snd (close env code1 data1 w)) = (None, snd (close env code1 data1 w))
      \<and> readyState (ws (snd (close env code1 data1 w))) = CLOSING
      \<and> close_calls (ws (snd (close env code2 data2 (snd (close env code1 data1 w))))) =
          close_calls (ws w) @ [(code1, data1)]"
    if "transport_open w" "WebSocket_close_check env code1 data1 = None"
    using that by (simp add: close_cases transport_open_def)
  have rejected: "fst (close env code1 data1 w) = WebSocket_close_check env code1 data1
      \<and> transport_open (snd (close env code1 data1 w))
      \<and> close_calls (ws (snd (close env code2 data2 (snd (close env code1 data1 w))))) =
          close_calls (ws w) @ [(code1, data1), (code2, data2)]"
    if "transport_open w" "WebSocket_close_check env code1 data1 \<noteq> None"
      "\<not> WebSocket_closing_before_check env"
    using that by (auto simp: close_cases transport_open_def split: option.splits)
  have marked: "fst (close env code1 data1 w) = WebSocket_close_check env code1 data1
      \<and> readyState (ws (snd (close env code1 data1 w))) = CLOSING
      \<and> close env code2 data2 (snd (close env code1 data1 w)) = (None, snd (close env code1 data1 w))
      \<and> close_calls (ws (snd (close env code2 data2 (snd (close env code1 data1 w))))) =
          close_calls (ws w) @ [(code1, data1)]"
    if "transport_open w" "WebSocket_close_check env code1 data1 \<noteq> None"
      "WebSocket_closing_before_check env"
    using that by (auto simp: close_cases transport_open_def split: option.splits)
  have quiet: "new_calls w (snd (close env code2 data2 (snd (close env code1 data1 w)))) = []"
    by (simp add: new_calls_def close_fields)
  have reported: "new_calls w (snd (deliver env (Closure code reason) w)) =
      [(CloseHandler, CloseEvent code reason)]"
    by (simp add: new_calls_def invoke_fields)
  show ?thesis
    using closed accepted rejected marked quiet reported by blast
qed

text \<open>
  C7, amended, on the concrete session: \<open>close(1000)\<close> and then \<open>close()\<close> on the open
  socket; \<open>close(1)\<close> and then \<open>close()\<close> on the open socket, for a socket that checks first
  and for one that marks itself closing first; \<open>close()\<close> twice on the connecting one; and
  the closure that the transport reports.
\<close>

theorem close_twice_witness:
  "transport_open example_open
   \<and> WebSocket_close_check example_env (Some 1000) None = None
   \<and> close_calls (ws (snd (close example_env None None
                             (snd (close example_env (Some 1000) None example_open))))) =
       [(Some 1000, None)]
   \<and> WebSocket_close_check example_env (Some 1) None \<noteq> None
   \<and> \<not> WebSocket_closing_before_check example_env
   \<and> close_calls (ws (snd (close example_env None None
                             (snd (close example_env (Some 1) None example_open))))) =
       [(Some 1, None), (None, None)]
   \<and> WebSocket_close_check eager_env (Some 1) None \<noteq> None
   \<and> WebSocket_closing_before_check eager_env
   \<and> close_calls (ws (snd (close eager_env None None
                             (snd (close eager_env (Some 1) None example_open))))) =
       [(Some 1, None)]
   \<and> \<not> transport_open example_client
   \<and> close example_env None None (snd (close example_env None None example_client)) =
       (None, example_client)
   \<and> new_calls example_open (snd (deliver example_env (Closure 1000 '''') example_open)) =
       [(CloseHandler, CloseEvent 1000 '''')]"
proof -
  have once: "close_calls (ws example_open) @ [(Some 1000, None)] = [(Some 1000, None)]"
    and again: "close_calls (ws example_open) @ [(Some 1, None), (None, None)] =
      [(Some 1, None), (None, None)]"
    and marked: "close_calls (ws example_open) @ [(Some 1, None)] = [(Some 1, None)]"
    by (simp_all add: example_open_fields)
  note accepted = close_twice [of example_open example_env "Some 1000" None None None 1000 "''''",
      unfolded once]
  note rejected = close_twice [of example_open example_env "Some 1" None None None 1000 "''''",
      unfolded again]
  note eager = close_twice [of example_open eager_env "Some 1" None None None 1000 "''''",
      unfolded marked]
  note closed = close_twice [of example_client example_env None None None None 1000 "''''"]
  have check: "WebSocket_close_check example_env (Some 1000) None = None"
    "WebSocket_close_check example_env (Some 1) None \<noteq> None"
    "WebSocket_close_check eager_env (Some 1) None \<noteq> None"
    by (simp_all add: example_close_check)
  have "close_calls (ws (snd (close example_env None None
                             (snd (close example_env (Some 1000) None example_open))))) =
       [(Some 1000, None)]"
    using accepted example_open_transport(1) check(1) by blast
  moreover have "close_calls (ws (snd (close example_env None None
                             (snd (close example_env (Some 1) None example_open))))) =
       [(Some 1, None), (None, None)]"
    using rejected example_open_transport(1) check(2) example_closing_before_check(1) by blast
  moreover have "close_calls (ws (snd (close eager_env None None
                             (snd (close eager_env (Some 1) None example_open))))) =
       [(Some 1, None)]"
    using eager example_open_transport(1) check(3) example_closing_before_check(2) by blast
  moreover have "close example_env None None (snd (close example_env None None example_client)) =
       (None, example_client)"
    using closed example_open_transport(2) by blast
  moreover have "new_calls example_open (snd (deliver example_env (Closure 1000 '''') example_open)) =
       [(CloseHandler, CloseEvent 1000 '''')]"
    using accepted by blast
  ultimately show ?thesis
    using example_open_transport(1,2) check example_closing_before_check by blast
qed

subsection \<open>C8: Heartbeat\<close>

text \<open>
  C8, as stated, fails: an inbound \<open>ping\<close> frame that carries a truthy \<open>payload.error\<close>,
  received on an open socket, goes to the error handler, and no \<open>ping\<close> response is sent.
\<close>

theorem ping_with_error_counterexample:
  "JSON_parse example_env ping_error_frame = Inr ping_error_value
   \<and> property ping_error_value ''type'' = JStr ''ping''
   \<and> transport_open example_open
   \<and> messageHandler example_env ping_error_frame example_open =
       (None, example_open\<lparr>calls := [(ErrorHandler, Data ping_error_frame)]\<rparr>)
   \<and> emitted example_open (snd (messageHandler example_env ping_error_frame example_open)) = []"
  by (simp add: messageHandler_of_invoke [OF try_block_error [OF example_parse(5) example_errors(5)]]
      example_parse example_types example_open_transport example_open_fields emitted_def)

text \<open>
  C8, amended: for every inbound \<open>ping\<close> frame without a truthy \<open>payload.error\<close>, received
  while the transport is open, exactly one frame is sent, and it is the encoding of the object
  with \<open>id\<close> the \<open>clientId\<close> and \<open>type\<close> \<open>"ping"\<close>, and no other field; no handler is
  called.
\<close>

theorem ping_answered:
  assumes "JSON_parse env data = Inr dataObj" and "\<not> carries_error dataObj"
    and "property dataObj ''type'' = JStr ''ping''" and "transport_open w"
  shows "messageHandler env data w =
     (None, w\<lparr>ws := (ws w)\<lparr>sent := sent (ws w) @
        [JSON_stringify env (JObj [(''id'', JStr (clientId (this w))), (''type'', JStr ''ping'')])]\<rparr>\<rparr>)"
  using assms(4)
  by (simp add: messageHandler_ping [OF assms(1-3)] send_cases pingResponsePayload_def)

text \<open>
  C8, amended, on the concrete session.
\<close>

theorem ping_answered_witness:
  "JSON_parse example_env ping_frame = Inr ping_value
   \<and> \<not> carries_error ping_value
   \<and> property ping_value ''type'' = JStr ''ping''
   \<and> transport_open example_open
   \<and> messageHandler example_env ping_frame example_open =
       (None, example_open\<lparr>ws := (ws example_open)\<lparr>sent := [hello_request, ping_response]\<rparr>\<rparr>)"
  using ping_answered [OF example_parse(3) example_errors(3) example_types(3) example_open_transport(1)]
    example_stringify(3)
  by (simp add: example_parse example_errors example_types example_open_transport example_open_fields
      pingResponsePayload_def)

subsection \<open>C9: Publish messages\<close>

text \<open>
  C9: for every inbound \<open>pub\<close> frame without a truthy \<open>payload.error\<close>, the publish handler
  is called exactly once, with the \<open>message\<close> property of the decoded frame as it is and with
  nothing else; the only other call is of the error handler, with what the publish handler
  threw, if it threw.
\<close>

theorem pub_forwarded_verbatim:
  assumes "JSON_parse env data = Inr dataObj" and "\<not> carries_error dataObj"
    and "property dataObj ''type'' = JStr ''pub''"
  shows "messageHandler env data w =
     (case pubMessageHandler (this w) (Message (property dataObj ''message'')) of
        None \<Rightarrow> (None, w\<lparr>calls := calls w @ [(PubMessageHandler, Message (property dataObj ''message''))]\<rparr>)
      | Some e \<Rightarrow>
          (errorHandler (this w) (Exception e),
           w\<lparr>calls := calls w @ [(PubMessageHandler, Message (property dataObj ''message'')),
                                  (ErrorHandler, Exception e)]\<rparr>))
     \<and> length (filter (\<lambda>c. fst c = PubMessageHandler)
          (new_calls w (snd (messageHandler env data w)))) = 1"
  by (simp add: messageHandler_of_invoke [OF try_block_pub [OF assms]] new_calls_def
      split: option.splits)

text \<open>
  C9 on the concrete session: the \<open>pub\<close> frame of the scenario.
\<close>

theorem pub_forwarded_verbatim_witness:
  "JSON_parse example_env pub_frame = Inr pub_value
   \<and> \<not> carries_error pub_value
   \<and> property pub_value ''type'' = JStr ''pub''
   \<and> messageHandler example_env pub_frame example_open =
       (None, example_open\<lparr>calls := [(PubMessageHandler, Message pub_message)]\<rparr>)"
  using pub_forwarded_verbatim [OF example_parse(4) example_errors(4) example_types(4), of example_open]
  by (simp add: example_parse example_errors example_types example_open_fields)

subsection \<open>C10: Frames and the state of the client\<close>

text \<open>
  C10, as stated, fails: the frame sent in answer to a frame is not a function of that frame and
  of the client alone. The same client answers the same \<open>ping\<close> frame with a \<open>ping\<close> response
  while its socket is open, and with nothing once \<open>close\<close> has been called.
\<close>

theorem response_depends_on_socket_counterexample:
  "this (snd (close example_env None None example_open)) = this example_open
   \<and> emitted example_open (snd (messageHandler example_env ping_frame example_open)) = [ping_response]
   \<and> emitted (snd (close example_env None None example_open))
       (snd (messageHandler example_env ping_frame (snd (close example_env None None example_open)))) = []"
proof -
  have closing: "\<not> transport_open (snd (close example_env None None example_open))"
    by (simp add: close_cases example_open_transport example_close_check transport_open_def)
  have "emitted example_open (snd (messageHandler example_env ping_frame example_open)) = [ping_response]"
    using example_stringify(3)
    by (simp add: example_ping send_cases example_open_transport example_open_fields emitted_def)
  moreover have "emitted (snd (close example_env None None example_open))
       (snd (messageHandler example_env ping_frame (snd (close example_env None None example_open)))) = []"
    by (simp add: example_ping send_cases closing emitted_def)
  ultimately show ?thesis
    by (simp add: close_fields)
qed

text \<open>
  C10, amended: handling an inbound frame changes no field of the client (\<open>clientId\<close>,
  \<open>deviceId\<close>, \<open>topic\<close>, \<open>authorization\<close>, the four handlers, the reference to the socket).
  In two worlds with the same client, whatever was received before, the same frame leads to
  the same handler calls and the same exception, if any; and if the socket is open in both or
  in neither, to the same frames sent.
\<close>

theorem frame_response_determined:
  assumes "this w1 = this w2"
  shows "this (snd (messageHandler env data w1)) = this w1
   \<and> fst (messageHandler env data w1) = fst (messageHandler env data w2)
   \<and> new_calls w1 (snd (messageHandler env data w1)) = new_calls w2 (snd (messageHandler env data w2))
   \<and> ((readyState (ws w1) = OPEN \<longleftrightarrow> readyState (ws w2) = OPEN) \<longrightarrow>
        emitted w1 (snd (messageHandler env data w1)) = emitted w2 (snd (messageHandler env data w2)))"
  using messageHandler_this [of env data w1] messageHandler_calls(1,2) [OF assms, of env data]
    messageHandler_emitted(1) [OF assms, of env data]
  by blast

text \<open>
  C10, amended, on the concrete session: a \<open>ping\<close> frame after a \<open>pub\<close> frame has been
  handled is answered as a \<open>ping\<close> frame right after the socket opened.
\<close>

theorem frame_response_determined_witness:
  "this (example_open\<lparr>calls := [(PubMessageHandler, Message pub_message)]\<rparr>) = this example_open
   \<and> (readyState (ws (example_open\<lparr>calls := [(PubMessageHandler, Message pub_message)]\<rparr>)) = OPEN
        \<longleftrightarrow> readyState (ws example_open) = OPEN)
   \<and> new_calls (example_open\<lparr>calls := [(PubMessageHandler, Message pub_message)]\<rparr>)
        (snd (messageHandler example_env ping_frame
               (example_open\<lparr>calls := [(PubMessageHandler, Message pub_message)]\<rparr>))) = []
   \<and> emitted (example_open\<lparr>calls := [(PubMessageHandler, Message pub_message)]\<rparr>)
        (snd (messageHandler example_env ping_frame
               (example_open\<lparr>calls := [(PubMessageHandler, Message pub_message)]\<rparr>))) = [ping_response]"
proof -
  have base: "new_calls example_open (snd (messageHandler example_env ping_frame example_open)) = []
      \<and> emitted example_open (snd (messageHandler example_env ping_frame example_open)) = [ping_response]"
    using example_stringify(3)
    by (simp add: example_ping send_cases example_open_transport example_open_fields emitted_def
        new_calls_def)
  have same: "this (example_open\<lparr>calls := [(PubMessageHandler, Message pub_message)]\<rparr>) = this example_open"
    by simp
  show ?thesis
    using frame_response_determined [OF same, of example_env ping_frame] base same
    by simp
qed

end
